theory Spec2Isabelle
  imports Main "HOL-Library.AList" "HOL-Library.Sublist"
begin

section \<open>PIL.ImageMath: operands and the restricted evaluator\<close>

text \<open>
  The development follows \<^verbatim>\<open>src/PIL/ImageMath.py\<close>. The module has two parts: the
  class \<^verbatim>\<open>_Operand\<close>, which wraps an image and routes every operator to a kernel of
  \<^verbatim>\<open>_imagingmath\<close>, and the function \<^verbatim>\<open>eval\<close>, which checks the names of an
  expression and then hands it to the interpreter.

  Images are objects with identity: they live in a heap (a list, an address is an index),
  and an \<^verbatim>\<open>_Operand\<close> holds the address of its image. What the module takes from
  elsewhere (the image library, the kernel registry, the interpreter's arithmetic on plain
  numbers, the names of the \<^verbatim>\<open>builtins\<close> module) is a parameter: a record of type
  \<open>host\<close>.
\<close>

subsection \<open>Values\<close>

text \<open>A Python float is carried as mantissa and binary exponent; no arithmetic is done on it here.\<close>

datatype pyfloat = PyFloat int int

datatype unaryop = UAdd | USub | Invert

datatype operator = Add | Sub | Mult | Div | Mod | Pow | LShift | RShift | BitOr | BitXor | BitAnd

datatype cmpop = Eq | NotEq | Lt | LtE | Gt | GtE

datatype literal = CInt int | CFloat pyfloat | CStr string

text \<open>
  The expressions modelled: names, numeric and string constants, unary and binary operators,
  single comparisons, calls, and parameterless \<^verbatim>\<open>lambda\<close> (the construct that gives
  nested code objects).
\<close>

datatype expr =
    Name string
  | Constant literal
  | UnaryOp unaryop expr
  | BinOp expr operator expr
  | Compare expr cmpop expr
  | Call expr "expr list"
  | Lambda expr

text \<open>An \<^verbatim>\<open>_Operand\<close>: its identity and its one field \<^verbatim>\<open>im\<close>, set in \<^verbatim>\<open>__init__\<close> and never assigned again.\<close>

record operand =
  oid :: nat
  im :: nat

text \<open>
  The values an expression computes with. An image is only ever seen through an operand:
  \<^verbatim>\<open>eval\<close> wraps every image of the namespace before the expression runs.
\<close>

datatype val =
    VInt int
  | VFloat pyfloat
  | VBool bool
  | VStr string
  | VOperand operand
  | VFunction string
  | VBuiltin string
  | VObject string
  | VClosure expr
  | VDict "(string \<times> val) list"

datatype error =
    ValueError string
  | TypeError string
  | AttributeError string
  | NameError string
  | OverflowError string
  | SyntaxError

record 'p image =
  im_mode :: string
  im_size :: "nat \<times> nat"
  im_pixels :: 'p

text \<open>
  The collaborators. \<open>new_pixels\<close>, \<open>convert_pixels\<close> and \<open>crop_pixels\<close> give the buffer of
  the image that \<^verbatim>\<open>Image.new\<close>, \<^verbatim>\<open>Image.convert\<close> and \<^verbatim>\<open>Image.crop\<close> return;
  \<open>fill_error m c\<close> is the error \<^verbatim>\<open>Image.new\<close> raises when it refuses the fill \<open>c\<close> for the
  mode \<open>m\<close>, and \<open>convert_error m m'\<close> the error \<^verbatim>\<open>Image.convert\<close> raises when it refuses
  to convert an image of mode \<open>m\<close> to the mode \<open>m'\<close> (\<open>None\<close> when they accept);
  \<open>has_kernel n\<close> says whether \<^verbatim>\<open>_imagingmath\<close> has an attribute \<open>n\<close>; \<open>unop\<close> and
  \<open>binop\<close> give the buffer the kernel leaves in its output image; \<open>builtin_names\<close> are the
  attributes of the module \<^verbatim>\<open>builtins\<close>; the \<open>host_\<close> functions are the interpreter's
  own operators and calls on values that are not operands.
\<close>

record 'p host =
  new_pixels :: "string \<Rightarrow> nat \<times> nat \<Rightarrow> val option \<Rightarrow> 'p"
  fill_error :: "string \<Rightarrow> val \<Rightarrow> error option"
  convert_pixels :: "'p image \<Rightarrow> string \<Rightarrow> 'p"
  convert_error :: "string \<Rightarrow> string \<Rightarrow> error option"
  crop_pixels :: "'p image \<Rightarrow> nat \<times> nat \<times> nat \<times> nat \<Rightarrow> 'p"
  has_kernel :: "string \<Rightarrow> bool"
  unop :: "string \<Rightarrow> 'p image \<Rightarrow> 'p image \<Rightarrow> 'p"
  binop :: "string \<Rightarrow> 'p image \<Rightarrow> 'p image \<Rightarrow> 'p image \<Rightarrow> 'p"
  builtin_names :: "string list"
  host_unary :: "unaryop \<Rightarrow> val \<Rightarrow> error + val"
  host_binary :: "operator \<Rightarrow> val \<Rightarrow> val \<Rightarrow> error + val"
  host_compare :: "cmpop \<Rightarrow> val \<Rightarrow> val \<Rightarrow> error + val"
  host_call :: "val \<Rightarrow> val list \<Rightarrow> error + val"

text \<open>
  The state: the image objects, the next free operand identity, and the kernel invocations
  made so far (kernel name, then the addresses of the output and the inputs).
\<close>

record 'p state =
  heap :: "'p image list"
  next_oid :: nat
  kernel_log :: "(string \<times> nat list) list"

subsection \<open>The image library, as the module uses it\<close>

text \<open>
  \<^verbatim>\<open>Image.new(mode, size, color)\<close>. Without a fill (\<^verbatim>\<open>None\<close>) it allocates; with one it
  raises when the library refuses the fill for the mode, and allocates nothing then.
\<close>

definition Image_new ::
  "'p host \<Rightarrow> string \<Rightarrow> nat \<times> nat \<Rightarrow> val option \<Rightarrow> 'p state \<Rightarrow> (error + nat) \<times> 'p state" where
  "Image_new E m sz c s =
     (case (case c of None \<Rightarrow> None | Some v \<Rightarrow> fill_error E m v) of
        Some e \<Rightarrow> (Inl e, s)
      | None \<Rightarrow>
          (Inr (length (heap s)),
           s\<lparr>heap := heap s @ [\<lparr>im_mode = m, im_size = sz, im_pixels = new_pixels E m sz c\<rparr>]\<rparr>))"

text \<open>
  The conversions the library performs for every image: to the image's own mode (a copy),
  from the modes 1 and L to I, and from I to F. These are the ones \<^verbatim>\<open>__fixup\<close> and
  \<^verbatim>\<open>apply\<close> ask for.
\<close>

definition always_converts :: "string \<Rightarrow> string \<Rightarrow> bool" where
  "always_converts m m' = (m = m' \<or> (m \<in> {''1'', ''L''} \<and> m' = ''I'') \<or> (m = ''I'' \<and> m' = ''F''))"

text \<open>\<^verbatim>\<open>im.convert(mode)\<close>: a new image, or the library's error for a conversion it refuses.\<close>

definition convert :: "'p host \<Rightarrow> nat \<Rightarrow> string \<Rightarrow> 'p state \<Rightarrow> (error + nat) \<times> 'p state" where
  "convert E a m s =
     (case (if always_converts (im_mode (heap s ! a)) m then None
            else convert_error E (im_mode (heap s ! a)) m) of
        Some e \<Rightarrow> (Inl e, s)
      | None \<Rightarrow>
          (Inr (length (heap s)),
           s\<lparr>heap := heap s @ [\<lparr>im_mode = m, im_size = im_size (heap s ! a),
                                 im_pixels = convert_pixels E (heap s ! a) m\<rparr>]\<rparr>))"

definition crop :: "'p host \<Rightarrow> nat \<Rightarrow> nat \<times> nat \<times> nat \<times> nat \<Rightarrow> 'p state \<Rightarrow> nat \<times> 'p state" where
  "crop E a box s =
     (case box of (l, u, r, d) \<Rightarrow>
        (length (heap s),
         s\<lparr>heap := heap s @ [\<lparr>im_mode = im_mode (heap s ! a), im_size = (r - l, d - u),
                               im_pixels = crop_pixels E (heap s ! a) box\<rparr>]\<rparr>))"

text \<open>\<^verbatim>\<open>_Operand(im)\<close>: a new wrapper, with an identity no earlier operand has.\<close>

definition Operand_init :: "nat \<Rightarrow> 'p state \<Rightarrow> operand \<times> 'p state" where
  "Operand_init a s = (\<lparr>oid = next_oid s, im = a\<rparr>, s\<lparr>next_oid := Suc (next_oid s)\<rparr>)"

text \<open>
  A kernel call writes the buffer of its output image, reads its inputs, and is logged.
\<close>

definition unop_call :: "'p host \<Rightarrow> string \<Rightarrow> nat \<Rightarrow> nat \<Rightarrow> 'p state \<Rightarrow> 'p state" where
  "unop_call E k out a s =
     s\<lparr>heap := (heap s)[out := (heap s ! out)\<lparr>im_pixels := unop E k (heap s ! out) (heap s ! a)\<rparr>],
       kernel_log := kernel_log s @ [(k, [out, a])]\<rparr>"

definition binop_call :: "'p host \<Rightarrow> string \<Rightarrow> nat \<Rightarrow> nat \<Rightarrow> nat \<Rightarrow> 'p state \<Rightarrow> 'p state" where
  "binop_call E k out a b s =
     s\<lparr>heap := (heap s)[out := (heap s ! out)\<lparr>im_pixels := binop E k (heap s ! out) (heap s ! a) (heap s ! b)\<rparr>],
       kernel_log := kernel_log s @ [(k, [out, a, b])]\<rparr>"

subsection \<open>\<^verbatim>\<open>_Operand.__fixup\<close> and \<^verbatim>\<open>_Operand.apply\<close>\<close>

text \<open>\<^verbatim>\<open>isinstance(v, (int, float))\<close>; \<^verbatim>\<open>bool\<close> is a subclass of \<^verbatim>\<open>int\<close>.\<close>

fun is_number :: "val \<Rightarrow> bool" where
  "is_number (VInt _) = True"
| "is_number (VFloat _) = True"
| "is_number (VBool _) = True"
| "is_number _ = False"

definition unsupported_mode :: "string \<Rightarrow> string" where
  "unsupported_mode m = ''unsupported mode: '' @ m"

definition bad_operand_type :: "string \<Rightarrow> string" where
  "bad_operand_type opname = ''bad operand type for '' @ [CHR 0x27] @ opname @ [CHR 0x27]"

definition fixup :: "'p host \<Rightarrow> operand \<Rightarrow> val \<Rightarrow> 'p state \<Rightarrow> (error + nat) \<times> 'p state" where
  "fixup E self im1 s =
     (case im1 of
        VOperand o1 \<Rightarrow>
          (if im_mode (heap s ! im o1) \<in> {''1'', ''L''} then
             convert E (im o1) ''I'' s
           else if im_mode (heap s ! im o1) \<in> {''I'', ''F''} then (Inr (im o1), s)
           else (Inl (ValueError (unsupported_mode (im_mode (heap s ! im o1)))), s))
      | _ \<Rightarrow>
          (if is_number im1 \<and> im_mode (heap s ! im self) \<in> {''1'', ''L'', ''I''} then
             Image_new E ''I'' (im_size (heap s ! im self)) (Some im1) s
           else
             Image_new E ''F'' (im_size (heap s ! im self)) (Some im1) s))"

text \<open>\<^verbatim>\<open>mode or im_1.mode\<close>: \<^verbatim>\<open>None\<close> and the empty string are false.\<close>

definition mode_or :: "string option \<Rightarrow> string \<Rightarrow> string" where
  "mode_or mode m = (case mode of None \<Rightarrow> m | Some x \<Rightarrow> (if x = [] then m else x))"

text \<open>Lines 71 to 76: when the modes differ, the image that is not in mode F is converted to F.\<close>

definition match_modes :: "'p host \<Rightarrow> nat \<Rightarrow> nat \<Rightarrow> 'p state \<Rightarrow> (error + nat \<times> nat) \<times> 'p state" where
  "match_modes E a b s =
     (if im_mode (heap s ! a) \<noteq> im_mode (heap s ! b) then
        (case (if im_mode (heap s ! a) \<noteq> ''F'' then convert E a ''F'' s else (Inr a, s)) of
           (Inl e, s1) \<Rightarrow> (Inl e, s1)
         | (Inr a', s1) \<Rightarrow>
             (case (if im_mode (heap s1 ! b) \<noteq> ''F'' then convert E b ''F'' s1 else (Inr b, s1)) of
                (Inl e, s2) \<Rightarrow> (Inl e, s2)
              | (Inr b', s2) \<Rightarrow> (Inr (a', b'), s2)))
      else (Inr (a, b), s))"

text \<open>Lines 77 to 86: when the sizes differ, both are cropped to the smaller width and height.\<close>

definition match_sizes :: "'p host \<Rightarrow> nat \<Rightarrow> nat \<Rightarrow> 'p state \<Rightarrow> (nat \<times> nat) \<times> 'p state" where
  "match_sizes E a b s =
     (if im_size (heap s ! a) \<noteq> im_size (heap s ! b) then
        (let size = (min (fst (im_size (heap s ! a))) (fst (im_size (heap s ! b))),
                     min (snd (im_size (heap s ! a))) (snd (im_size (heap s ! b))))
         in case (if im_size (heap s ! a) \<noteq> size then crop E a (0, 0, fst size, snd size) s else (a, s)) of
              (a', s1) \<Rightarrow>
                (case (if im_size (heap s1 ! b) \<noteq> size then crop E b (0, 0, fst size, snd size) s1 else (b, s1)) of
                   (b', s2) \<Rightarrow> ((a', b'), s2)))
      else ((a, b), s))"

definition Operand_apply ::
  "'p host \<Rightarrow> operand \<Rightarrow> string \<Rightarrow> val \<Rightarrow> val option \<Rightarrow> string option \<Rightarrow> 'p state
     \<Rightarrow> (error + operand) \<times> 'p state" where
  "Operand_apply E self opname im1 im2 mode s =
     (case fixup E self im1 s of
        (Inl e, s1) \<Rightarrow> (Inl e, s1)
      | (Inr im_1, s1) \<Rightarrow>
          (case im2 of
             None \<Rightarrow>
               (case Image_new E (mode_or mode (im_mode (heap s1 ! im_1))) (im_size (heap s1 ! im_1)) None s1 of
                  (Inl e, s2) \<Rightarrow> (Inl e, s2)
                | (Inr out, s2) \<Rightarrow>
                    (if has_kernel E (opname @ ''_'' @ im_mode (heap s2 ! im_1)) then
                       (case Operand_init out
                               (unop_call E (opname @ ''_'' @ im_mode (heap s2 ! im_1)) out im_1 s2) of
                          (r, s3) \<Rightarrow> (Inr r, s3))
                     else (Inl (TypeError (bad_operand_type opname)), s2)))
           | Some v2 \<Rightarrow>
               (case fixup E self v2 s1 of
                  (Inl e, s2) \<Rightarrow> (Inl e, s2)
                | (Inr im_2, s2) \<Rightarrow>
                    (case match_modes E im_1 im_2 s2 of
                       (Inl e, s3) \<Rightarrow> (Inl e, s3)
                     | (Inr (m_1, m_2), s3) \<Rightarrow>
                         (case match_sizes E m_1 m_2 s3 of
                            ((c_1, c_2), s4) \<Rightarrow>
                              (case Image_new E (mode_or mode (im_mode (heap s4 ! c_1)))
                                      (im_size (heap s4 ! c_1)) None s4 of
                                 (Inl e, s5) \<Rightarrow> (Inl e, s5)
                               | (Inr out, s5) \<Rightarrow>
                                   (if has_kernel E (opname @ ''_'' @ im_mode (heap s5 ! c_1)) then
                                      (case Operand_init out
                                              (binop_call E (opname @ ''_'' @ im_mode (heap s5 ! c_1))
                                                 out c_1 c_2 s5) of
                                         (r, s6) \<Rightarrow> (Inr r, s6))
                                    else (Inl (TypeError (bad_operand_type opname)), s5))))))))"

subsection \<open>The operator methods of \<^verbatim>\<open>_Operand\<close>\<close>

text \<open>
  \<open>Operand_add\<close> is \<^verbatim>\<open>__add__\<close>, \<open>Operand_radd\<close> is \<^verbatim>\<open>__radd__\<close>, and so on, in the
  order of the class body.
\<close>

definition Operand_abs :: "'p host \<Rightarrow> operand \<Rightarrow> 'p state \<Rightarrow> (error + operand) \<times> 'p state" where
  "Operand_abs E self s = Operand_apply E self ''abs'' (VOperand self) None None s"

definition Operand_pos :: "'p host \<Rightarrow> operand \<Rightarrow> 'p state \<Rightarrow> (error + operand) \<times> 'p state" where
  "Operand_pos E self s = (Inr self, s)"

definition Operand_neg :: "'p host \<Rightarrow> operand \<Rightarrow> 'p state \<Rightarrow> (error + operand) \<times> 'p state" where
  "Operand_neg E self s = Operand_apply E self ''neg'' (VOperand self) None None s"

definition Operand_add :: "'p host \<Rightarrow> operand \<Rightarrow> val \<Rightarrow> 'p state \<Rightarrow> (error + operand) \<times> 'p state" where
  "Operand_add E self other s = Operand_apply E self ''add'' (VOperand self) (Some other) None s"

definition Operand_radd :: "'p host \<Rightarrow> operand \<Rightarrow> val \<Rightarrow> 'p state \<Rightarrow> (error + operand) \<times> 'p state" where
  "Operand_radd E self other s = Operand_apply E self ''add'' other (Some (VOperand self)) None s"

definition Operand_sub :: "'p host \<Rightarrow> operand \<Rightarrow> val \<Rightarrow> 'p state \<Rightarrow> (error + operand) \<times> 'p state" where
  "Operand_sub E self other s = Operand_apply E self ''sub'' (VOperand self) (Some other) None s"

definition Operand_rsub :: "'p host \<Rightarrow> operand \<Rightarrow> val \<Rightarrow> 'p state \<Rightarrow> (error + operand) \<times> 'p state" where
  "Operand_rsub E self other s = Operand_apply E self ''sub'' other (Some (VOperand self)) None s"

definition Operand_mul :: "'p host \<Rightarrow> operand \<Rightarrow> val \<Rightarrow> 'p state \<Rightarrow> (error + operand) \<times> 'p state" where
  "Operand_mul E self other s = Operand_apply E self ''mul'' (VOperand self) (Some other) None s"

definition Operand_rmul :: "'p host \<Rightarrow> operand \<Rightarrow> val \<Rightarrow> 'p state \<Rightarrow> (error + operand) \<times> 'p state" where
  "Operand_rmul E self other s = Operand_apply E self ''mul'' other (Some (VOperand self)) None s"

definition Operand_truediv :: "'p host \<Rightarrow> operand \<Rightarrow> val \<Rightarrow> 'p state \<Rightarrow> (error + operand) \<times> 'p state" where
  "Operand_truediv E self other s = Operand_apply E self ''div'' (VOperand self) (Some other) None s"

definition Operand_rtruediv :: "'p host \<Rightarrow> operand \<Rightarrow> val \<Rightarrow> 'p state \<Rightarrow> (error + operand) \<times> 'p state" where
  "Operand_rtruediv E self other s = Operand_apply E self ''div'' other (Some (VOperand self)) None s"

definition Operand_mod :: "'p host \<Rightarrow> operand \<Rightarrow> val \<Rightarrow> 'p state \<Rightarrow> (error + operand) \<times> 'p state" where
  "Operand_mod E self other s = Operand_apply E self ''mod'' (VOperand self) (Some other) None s"

definition Operand_rmod :: "'p host \<Rightarrow> operand \<Rightarrow> val \<Rightarrow> 'p state \<Rightarrow> (error + operand) \<times> 'p state" where
  "Operand_rmod E self other s = Operand_apply E self ''mod'' other (Some (VOperand self)) None s"

definition Operand_pow :: "'p host \<Rightarrow> operand \<Rightarrow> val \<Rightarrow> 'p state \<Rightarrow> (error + operand) \<times> 'p state" where
  "Operand_pow E self other s = Operand_apply E self ''pow'' (VOperand self) (Some other) None s"

definition Operand_rpow :: "'p host \<Rightarrow> operand \<Rightarrow> val \<Rightarrow> 'p state \<Rightarrow> (error + operand) \<times> 'p state" where
  "Operand_rpow E self other s = Operand_apply E self ''pow'' other (Some (VOperand self)) None s"

definition Operand_invert :: "'p host \<Rightarrow> operand \<Rightarrow> 'p state \<Rightarrow> (error + operand) \<times> 'p state" where
  "Operand_invert E self s = Operand_apply E self ''invert'' (VOperand self) None None s"

definition Operand_and :: "'p host \<Rightarrow> operand \<Rightarrow> val \<Rightarrow> 'p state \<Rightarrow> (error + operand) \<times> 'p state" where
  "Operand_and E self other s = Operand_apply E self ''and'' (VOperand self) (Some other) None s"

definition Operand_rand :: "'p host \<Rightarrow> operand \<Rightarrow> val \<Rightarrow> 'p state \<Rightarrow> (error + operand) \<times> 'p state" where
  "Operand_rand E self other s = Operand_apply E self ''and'' other (Some (VOperand self)) None s"

definition Operand_or :: "'p host \<Rightarrow> operand \<Rightarrow> val \<Rightarrow> 'p state \<Rightarrow> (error + operand) \<times> 'p state" where
  "Operand_or E self other s = Operand_apply E self ''or'' (VOperand self) (Some other) None s"

definition Operand_ror :: "'p host \<Rightarrow> operand \<Rightarrow> val \<Rightarrow> 'p state \<Rightarrow> (error + operand) \<times> 'p state" where
  "Operand_ror E self other s = Operand_apply E self ''or'' other (Some (VOperand self)) None s"

definition Operand_xor :: "'p host \<Rightarrow> operand \<Rightarrow> val \<Rightarrow> 'p state \<Rightarrow> (error + operand) \<times> 'p state" where
  "Operand_xor E self other s = Operand_apply E self ''xor'' (VOperand self) (Some other) None s"

definition Operand_rxor :: "'p host \<Rightarrow> operand \<Rightarrow> val \<Rightarrow> 'p state \<Rightarrow> (error + operand) \<times> 'p state" where
  "Operand_rxor E self other s = Operand_apply E self ''xor'' other (Some (VOperand self)) None s"

definition Operand_lshift :: "'p host \<Rightarrow> operand \<Rightarrow> val \<Rightarrow> 'p state \<Rightarrow> (error + operand) \<times> 'p state" where
  "Operand_lshift E self other s = Operand_apply E self ''lshift'' (VOperand self) (Some other) None s"

definition Operand_rshift :: "'p host \<Rightarrow> operand \<Rightarrow> val \<Rightarrow> 'p state \<Rightarrow> (error + operand) \<times> 'p state" where
  "Operand_rshift E self other s = Operand_apply E self ''rshift'' (VOperand self) (Some other) None s"

definition Operand_eq :: "'p host \<Rightarrow> operand \<Rightarrow> val \<Rightarrow> 'p state \<Rightarrow> (error + operand) \<times> 'p state" where
  "Operand_eq E self other s = Operand_apply E self ''eq'' (VOperand self) (Some other) None s"

definition Operand_ne :: "'p host \<Rightarrow> operand \<Rightarrow> val \<Rightarrow> 'p state \<Rightarrow> (error + operand) \<times> 'p state" where
  "Operand_ne E self other s = Operand_apply E self ''ne'' (VOperand self) (Some other) None s"

definition Operand_lt :: "'p host \<Rightarrow> operand \<Rightarrow> val \<Rightarrow> 'p state \<Rightarrow> (error + operand) \<times> 'p state" where
  "Operand_lt E self other s = Operand_apply E self ''lt'' (VOperand self) (Some other) None s"

definition Operand_le :: "'p host \<Rightarrow> operand \<Rightarrow> val \<Rightarrow> 'p state \<Rightarrow> (error + operand) \<times> 'p state" where
  "Operand_le E self other s = Operand_apply E self ''le'' (VOperand self) (Some other) None s"

definition Operand_gt :: "'p host \<Rightarrow> operand \<Rightarrow> val \<Rightarrow> 'p state \<Rightarrow> (error + operand) \<times> 'p state" where
  "Operand_gt E self other s = Operand_apply E self ''gt'' (VOperand self) (Some other) None s"

definition Operand_ge :: "'p host \<Rightarrow> operand \<Rightarrow> val \<Rightarrow> 'p state \<Rightarrow> (error + operand) \<times> 'p state" where
  "Operand_ge E self other s = Operand_apply E self ''ge'' (VOperand self) (Some other) None s"

subsection \<open>The module-level helpers and the table \<^verbatim>\<open>ops\<close>\<close>

definition imagemath_int :: "'p host \<Rightarrow> operand \<Rightarrow> 'p state \<Rightarrow> (error + operand) \<times> 'p state" where
  "imagemath_int E self s =
     (case convert E (im self) ''I'' s of
        (Inl e, s1) \<Rightarrow> (Inl e, s1)
      | (Inr a, s1) \<Rightarrow> (case Operand_init a s1 of (r, s2) \<Rightarrow> (Inr r, s2)))"

definition imagemath_float :: "'p host \<Rightarrow> operand \<Rightarrow> 'p state \<Rightarrow> (error + operand) \<times> 'p state" where
  "imagemath_float E self s =
     (case convert E (im self) ''F'' s of
        (Inl e, s1) \<Rightarrow> (Inl e, s1)
      | (Inr a, s1) \<Rightarrow> (case Operand_init a s1 of (r, s2) \<Rightarrow> (Inr r, s2)))"

definition imagemath_equal :: "'p host \<Rightarrow> operand \<Rightarrow> val option \<Rightarrow> 'p state \<Rightarrow> (error + operand) \<times> 'p state" where
  "imagemath_equal E self other s = Operand_apply E self ''eq'' (VOperand self) other (Some ''I'') s"

definition imagemath_notequal :: "'p host \<Rightarrow> operand \<Rightarrow> val option \<Rightarrow> 'p state \<Rightarrow> (error + operand) \<times> 'p state" where
  "imagemath_notequal E self other s = Operand_apply E self ''ne'' (VOperand self) other (Some ''I'') s"

definition imagemath_min :: "'p host \<Rightarrow> operand \<Rightarrow> val option \<Rightarrow> 'p state \<Rightarrow> (error + operand) \<times> 'p state" where
  "imagemath_min E self other s = Operand_apply E self ''min'' (VOperand self) other None s"

definition imagemath_max :: "'p host \<Rightarrow> operand \<Rightarrow> val option \<Rightarrow> 'p state \<Rightarrow> (error + operand) \<times> 'p state" where
  "imagemath_max E self other s = Operand_apply E self ''max'' (VOperand self) other None s"

definition imagemath_convert :: "'p host \<Rightarrow> operand \<Rightarrow> string \<Rightarrow> 'p state \<Rightarrow> (error + operand) \<times> 'p state" where
  "imagemath_convert E self mode s =
     (case convert E (im self) mode s of
        (Inl e, s1) \<Rightarrow> (Inl e, s1)
      | (Inr a, s1) \<Rightarrow> (case Operand_init a s1 of (r, s2) \<Rightarrow> (Inr r, s2)))"

text \<open>
  What a namespace holds before its images are wrapped: numbers, images (by address),
  functions and other objects of the module (by name).
\<close>

datatype raw = RInt int | RFloat pyfloat | RImage nat | RFunction string | RObject string

text \<open>The module's globals when the loop of lines 227 to 230 runs, in definition order.\<close>

definition module_globals :: "(string \<times> raw) list" where
  "module_globals =
     [(''__name__'', RObject ''__name__''), (''__doc__'', RObject ''__doc__''),
      (''__package__'', RObject ''__package__''), (''__loader__'', RObject ''__loader__''),
      (''__spec__'', RObject ''__spec__''), (''__file__'', RObject ''__file__''),
      (''__cached__'', RObject ''__cached__''), (''__builtins__'', RObject ''__builtins__''),
      (''annotations'', RObject ''annotations''), (''builtins'', RObject ''builtins''),
      (''CodeType'', RObject ''CodeType''), (''Any'', RObject ''Any''),
      (''Image'', RObject ''Image''), (''_imagingmath'', RObject ''_imagingmath''),
      (''_Operand'', RObject ''_Operand''),
      (''imagemath_int'', RFunction ''imagemath_int''),
      (''imagemath_float'', RFunction ''imagemath_float''),
      (''imagemath_equal'', RFunction ''imagemath_equal''),
      (''imagemath_notequal'', RFunction ''imagemath_notequal''),
      (''imagemath_min'', RFunction ''imagemath_min''),
      (''imagemath_max'', RFunction ''imagemath_max''),
      (''imagemath_convert'', RFunction ''imagemath_convert''),
      (''ops'', RObject ''ops'')]"

text \<open>A dictionary keeps insertion order; assigning to a key that is present keeps its place.\<close>

fun dict_update :: "(string \<times> 'v) list \<Rightarrow> (string \<times> 'v) list \<Rightarrow> (string \<times> 'v) list" where
  "dict_update d [] = d"
| "dict_update d ((k, v) # kvs) = dict_update (AList.update k v d) kvs"

definition ops :: "(string \<times> raw) list" where
  "ops = dict_update [] (map (\<lambda>(k, v). (drop 10 k, v))
                              (filter (\<lambda>(k, v). take 10 k = ''imagemath_'') module_globals))"

subsection \<open>Code objects: \<^verbatim>\<open>compile\<close> and \<^verbatim>\<open>scan\<close>\<close>

text \<open>
  Of a code object, \<^verbatim>\<open>scan\<close> reads \<^verbatim>\<open>co_consts\<close> (constants, and the code objects of
  nested functions) and \<^verbatim>\<open>co_names\<close> (the names the code loads by name).
\<close>

datatype code = Code (co_consts: "pyconst list") (co_names: "string list")
  and pyconst = KCode code | KLit literal

text \<open>First occurrences, in order: a name stands once in \<^verbatim>\<open>co_names\<close>.\<close>

fun uniq :: "string list \<Rightarrow> string list" where
  "uniq [] = []"
| "uniq (x # xs) = x # filter (\<lambda>y. y \<noteq> x) (uniq xs)"

text \<open>
  The names and constants of one code object. The body of a \<^verbatim>\<open>lambda\<close> is a code object
  of its own, a constant of the enclosing one; its names are not names of the enclosing one.
\<close>

fun expr_names :: "expr \<Rightarrow> string list" where
  "expr_names (Name x) = [x]"
| "expr_names (Constant c) = []"
| "expr_names (UnaryOp u e) = expr_names e"
| "expr_names (BinOp l bop r) = expr_names l @ expr_names r"
| "expr_names (Compare l cop r) = expr_names l @ expr_names r"
| "expr_names (Call f as) = expr_names f @ concat (map expr_names as)"
| "expr_names (Lambda e) = []"

fun expr_consts :: "expr \<Rightarrow> pyconst list" where
  "expr_consts (Name x) = []"
| "expr_consts (Constant c) = [KLit c]"
| "expr_consts (UnaryOp u e) = expr_consts e"
| "expr_consts (BinOp l bop r) = expr_consts l @ expr_consts r"
| "expr_consts (Compare l cop r) = expr_consts l @ expr_consts r"
| "expr_consts (Call f as) = expr_consts f @ concat (map expr_consts as)"
| "expr_consts (Lambda e) = [KCode (Code (expr_consts e) (uniq (expr_names e)))]"

text \<open>\<^verbatim>\<open>compile(expression, "<string>", "eval")\<close>; \<open>None\<close> is a text that does not parse.\<close>

definition compile :: "expr option \<Rightarrow> error + code" where
  "compile expression =
     (case expression of
        None \<Rightarrow> Inl SyntaxError
      | Some e \<Rightarrow> Inr (Code (expr_consts e) (uniq (expr_names e))))"

definition not_allowed :: "string \<Rightarrow> string" where
  "not_allowed k = [CHR 0x27] @ k @ [CHR 0x27] @ '' not allowed''"

text \<open>The second loop of \<^verbatim>\<open>scan\<close>: the first name that is neither a key of \<open>args\<close> nor \<^verbatim>\<open>abs\<close>.\<close>

fun scan_names :: "(string \<times> 'v) list \<Rightarrow> string list \<Rightarrow> error option" where
  "scan_names args [] = None"
| "scan_names args (name # names) =
     (if name \<notin> fst ` set args \<and> name \<noteq> ''abs'' then Some (ValueError (not_allowed name))
      else scan_names args names)"

text \<open>\<^verbatim>\<open>scan\<close>: the nested code objects first, then the names; \<open>None\<close> when nothing is raised.\<close>

fun scan :: "(string \<times> 'v) list \<Rightarrow> code \<Rightarrow> error option"
  and scan_consts :: "(string \<times> 'v) list \<Rightarrow> pyconst list \<Rightarrow> error option" where
  "scan args (Code consts names) =
     (case scan_consts args consts of Some e \<Rightarrow> Some e | None \<Rightarrow> scan_names args names)"
| "scan_consts args [] = None"
| "scan_consts args (KCode c # consts) =
     (case scan args c of Some e \<Rightarrow> Some e | None \<Rightarrow> scan_consts args consts)"
| "scan_consts args (KLit l # consts) = scan_consts args consts"

subsection \<open>The namespace\<close>

text \<open>\<^verbatim>\<open>"__" in k\<close>\<close>

fun has_dunder :: "string \<Rightarrow> bool" where
  "has_dunder (a # b # r) = ((a = CHR ''_'' \<and> b = CHR ''_'') \<or> has_dunder (b # r))"
| "has_dunder _ = False"

text \<open>Lines 248 to 251: the first key that is refused.\<close>

fun check_keys :: "'p host \<Rightarrow> string list \<Rightarrow> error option" where
  "check_keys E [] = None"
| "check_keys E (k # ks) =
     (if has_dunder k \<or> k \<in> set (builtin_names E) then Some (ValueError (not_allowed k))
      else check_keys E ks)"

text \<open>Lines 255 to 257: every value with an attribute \<^verbatim>\<open>im\<close>, that is every image, is wrapped.\<close>

fun wrap :: "raw \<Rightarrow> 'p state \<Rightarrow> val \<times> 'p state" where
  "wrap (RImage a) s = (case Operand_init a s of (r, s') \<Rightarrow> (VOperand r, s'))"
| "wrap (RInt n) s = (VInt n, s)"
| "wrap (RFloat f) s = (VFloat f, s)"
| "wrap (RFunction n) s = (VFunction n, s)"
| "wrap (RObject n) s = (VObject n, s)"

fun wrap_all :: "(string \<times> raw) list \<Rightarrow> 'p state \<Rightarrow> (string \<times> val) list \<times> 'p state" where
  "wrap_all [] s = ([], s)"
| "wrap_all ((k, v) # kvs) s =
     (case wrap v s of (w, s1) \<Rightarrow>
        (case wrap_all kvs s1 of (rest, s2) \<Rightarrow> ((k, w) # rest, s2)))"

subsection \<open>The interpreter: \<^verbatim>\<open>builtins.eval\<close>\<close>

text \<open>
  The interpreter's rules the module relies on. A frame finds its built-ins under the key
  \<^verbatim>\<open>__builtins__\<close> of its globals; when the globals given to \<^verbatim>\<open>eval\<close> have no such key,
  the built-ins of the running interpreter are inserted under it. The code of the expression
  itself looks a name up in the locals, then the globals, then the built-ins; the body of a
  nested function looks it up in the globals, then the built-ins, and never in the locals.
\<close>

definition module_builtins :: "'p host \<Rightarrow> (string \<times> val) list" where
  "module_builtins E = map (\<lambda>n. (n, VBuiltin n)) (builtin_names E)"

definition insert_builtins :: "'p host \<Rightarrow> (string \<times> val) list \<Rightarrow> (string \<times> val) list" where
  "insert_builtins E g =
     (if map_of g ''__builtins__'' = None then g @ [(''__builtins__'', VDict (module_builtins E))]
      else g)"

definition frame_builtins :: "(string \<times> val) list \<Rightarrow> (string \<times> val) list" where
  "frame_builtins g = (case map_of g ''__builtins__'' of Some (VDict d) \<Rightarrow> d | _ \<Rightarrow> [])"

definition load_global :: "(string \<times> val) list \<Rightarrow> string \<Rightarrow> val option" where
  "load_global g n = (case map_of g n of Some v \<Rightarrow> Some v | None \<Rightarrow> map_of (frame_builtins g) n)"

definition load_name :: "(string \<times> val) list \<Rightarrow> (string \<times> val) list \<Rightarrow> string \<Rightarrow> val option" where
  "load_name l g n = (case map_of l n of Some v \<Rightarrow> Some v | None \<Rightarrow> load_global g n)"

datatype scope = Toplevel | Nested

fun literal_val :: "literal \<Rightarrow> val" where
  "literal_val (CInt n) = VInt n"
| "literal_val (CFloat f) = VFloat f"
| "literal_val (CStr x) = VStr x"

fun is_operand :: "val \<Rightarrow> bool" where
  "is_operand (VOperand _) = True"
| "is_operand _ = False"

text \<open>A method's result, as a value of the expression.\<close>

definition returned :: "(error + operand) \<times> 'p state \<Rightarrow> ((error + val) \<times> 'p state) option" where
  "returned r = Some (map_sum id VOperand (fst r), snd r)"

text \<open>Unary operators: \<^verbatim>\<open>+x\<close>, \<^verbatim>\<open>-x\<close>, \<^verbatim>\<open>~x\<close> call \<^verbatim>\<open>__pos__\<close>, \<^verbatim>\<open>__neg__\<close>, \<^verbatim>\<open>__invert__\<close>.\<close>

fun Operand_unary :: "'p host \<Rightarrow> unaryop \<Rightarrow> operand \<Rightarrow> 'p state \<Rightarrow> (error + operand) \<times> 'p state" where
  "Operand_unary E UAdd = Operand_pos E"
| "Operand_unary E USub = Operand_neg E"
| "Operand_unary E Invert = Operand_invert E"

definition py_unary :: "'p host \<Rightarrow> unaryop \<Rightarrow> val \<Rightarrow> 'p state \<Rightarrow> ((error + val) \<times> 'p state) option" where
  "py_unary E u v s =
     (case v of
        VOperand a \<Rightarrow> returned (Operand_unary E u a s)
      | _ \<Rightarrow> Some (host_unary E u v, s))"

text \<open>The method a binary operator calls on its left operand, and the reflected one, if the class has it.\<close>

fun Operand_binary :: "'p host \<Rightarrow> operator \<Rightarrow> operand \<Rightarrow> val \<Rightarrow> 'p state \<Rightarrow> (error + operand) \<times> 'p state" where
  "Operand_binary E Add = Operand_add E"
| "Operand_binary E Sub = Operand_sub E"
| "Operand_binary E Mult = Operand_mul E"
| "Operand_binary E Div = Operand_truediv E"
| "Operand_binary E Mod = Operand_mod E"
| "Operand_binary E Pow = Operand_pow E"
| "Operand_binary E LShift = Operand_lshift E"
| "Operand_binary E RShift = Operand_rshift E"
| "Operand_binary E BitOr = Operand_or E"
| "Operand_binary E BitXor = Operand_xor E"
| "Operand_binary E BitAnd = Operand_and E"

fun Operand_reflected ::
  "'p host \<Rightarrow> operator \<Rightarrow> (operand \<Rightarrow> val \<Rightarrow> 'p state \<Rightarrow> (error + operand) \<times> 'p state) option" where
  "Operand_reflected E Add = Some (Operand_radd E)"
| "Operand_reflected E Sub = Some (Operand_rsub E)"
| "Operand_reflected E Mult = Some (Operand_rmul E)"
| "Operand_reflected E Div = Some (Operand_rtruediv E)"
| "Operand_reflected E Mod = Some (Operand_rmod E)"
| "Operand_reflected E Pow = Some (Operand_rpow E)"
| "Operand_reflected E LShift = None"
| "Operand_reflected E RShift = None"
| "Operand_reflected E BitOr = Some (Operand_ror E)"
| "Operand_reflected E BitXor = Some (Operand_rxor E)"
| "Operand_reflected E BitAnd = Some (Operand_rand E)"

fun operator_symbol :: "operator \<Rightarrow> string" where
  "operator_symbol Add = ''+''"
| "operator_symbol Sub = ''-''"
| "operator_symbol Mult = ''*''"
| "operator_symbol Div = ''/''"
| "operator_symbol Mod = ''%''"
| "operator_symbol Pow = ''** or pow()''"
| "operator_symbol LShift = ''<<''"
| "operator_symbol RShift = ''>>''"
| "operator_symbol BitOr = ''|''"
| "operator_symbol BitXor = ''^''"
| "operator_symbol BitAnd = ''&''"

definition unsupported_operands :: "operator \<Rightarrow> string" where
  "unsupported_operands bop = ''unsupported operand type(s) for '' @ operator_symbol bop"

text \<open>
  \<^verbatim>\<open>l op r\<close>. An operand on the left answers with its method, whatever stands on the
  right. Otherwise, with an operand on the right, the left value's own method does not know
  the class \<^verbatim>\<open>_Operand\<close>, and the operand's reflected method is called; when the class
  has none, the interpreter raises \<^verbatim>\<open>TypeError\<close>. The one left value that answers for
  itself is a string under \<^verbatim>\<open>%\<close> (formatting). With no operand, the host computes.
\<close>

definition py_binary :: "'p host \<Rightarrow> operator \<Rightarrow> val \<Rightarrow> val \<Rightarrow> 'p state \<Rightarrow> ((error + val) \<times> 'p state) option" where
  "py_binary E bop l r s =
     (case l of
        VOperand a \<Rightarrow> returned (Operand_binary E bop a r s)
      | VStr x \<Rightarrow>
          (if bop = Mod then Some (host_binary E bop l r, s)
           else (case r of
                   VOperand b \<Rightarrow>
                     (case Operand_reflected E bop of
                        Some m \<Rightarrow> returned (m b l s)
                      | None \<Rightarrow> Some (Inl (TypeError (unsupported_operands bop)), s))
                 | _ \<Rightarrow> Some (host_binary E bop l r, s)))
      | _ \<Rightarrow>
          (case r of
             VOperand b \<Rightarrow>
               (case Operand_reflected E bop of
                  Some m \<Rightarrow> returned (m b l s)
                | None \<Rightarrow> Some (Inl (TypeError (unsupported_operands bop)), s))
           | _ \<Rightarrow> Some (host_binary E bop l r, s)))"

text \<open>Comparisons: the reflection of \<^verbatim>\<open><\<close> is \<^verbatim>\<open>>\<close>, of \<^verbatim>\<open><=\<close> is \<^verbatim>\<open>>=\<close>; \<^verbatim>\<open>==\<close> and \<^verbatim>\<open>!=\<close> reflect to themselves.\<close>

fun Operand_compare :: "'p host \<Rightarrow> cmpop \<Rightarrow> operand \<Rightarrow> val \<Rightarrow> 'p state \<Rightarrow> (error + operand) \<times> 'p state" where
  "Operand_compare E Eq = Operand_eq E"
| "Operand_compare E NotEq = Operand_ne E"
| "Operand_compare E Lt = Operand_lt E"
| "Operand_compare E LtE = Operand_le E"
| "Operand_compare E Gt = Operand_gt E"
| "Operand_compare E GtE = Operand_ge E"

fun swapped :: "cmpop \<Rightarrow> cmpop" where
  "swapped Eq = Eq"
| "swapped NotEq = NotEq"
| "swapped Lt = Gt"
| "swapped LtE = GtE"
| "swapped Gt = Lt"
| "swapped GtE = LtE"

definition py_compare :: "'p host \<Rightarrow> cmpop \<Rightarrow> val \<Rightarrow> val \<Rightarrow> 'p state \<Rightarrow> ((error + val) \<times> 'p state) option" where
  "py_compare E cop l r s =
     (case l of
        VOperand a \<Rightarrow> returned (Operand_compare E cop a r s)
      | _ \<Rightarrow>
          (case r of
             VOperand b \<Rightarrow> returned (Operand_compare E (swapped cop) b l s)
           | _ \<Rightarrow> Some (host_compare E cop l r, s)))"

text \<open>
  Calling a helper of \<^verbatim>\<open>ops\<close>. Each reads \<^verbatim>\<open>self.im\<close> or \<^verbatim>\<open>self.apply\<close>, which only an
  operand has. \<open>None\<close> is a call this development does not model: a function that is not one
  of the seven, or \<^verbatim>\<open>convert\<close> with a mode that is not a string.
\<close>

definition no_attribute :: "string \<Rightarrow> string" where
  "no_attribute n = ''object has no attribute '' @ [CHR 0x27] @ n @ [CHR 0x27]"

definition call_function :: "'p host \<Rightarrow> string \<Rightarrow> val list \<Rightarrow> 'p state \<Rightarrow> ((error + val) \<times> 'p state) option" where
  "call_function E f vs s =
     (if f \<in> {''imagemath_int'', ''imagemath_float''} then
        (case vs of
           [VOperand a] \<Rightarrow>
             returned (if f = ''imagemath_int'' then imagemath_int E a s else imagemath_float E a s)
         | [_] \<Rightarrow> Some (Inl (AttributeError (no_attribute ''im'')), s)
         | _ \<Rightarrow> Some (host_call E (VFunction f) vs, s))
      else if f \<in> {''imagemath_equal'', ''imagemath_notequal'', ''imagemath_min'', ''imagemath_max''} then
        (case vs of
           [VOperand a, other] \<Rightarrow>
             returned (if f = ''imagemath_equal'' then imagemath_equal E a (Some other) s
                       else if f = ''imagemath_notequal'' then imagemath_notequal E a (Some other) s
                       else if f = ''imagemath_min'' then imagemath_min E a (Some other) s
                       else imagemath_max E a (Some other) s)
         | [_, _] \<Rightarrow> Some (Inl (AttributeError (no_attribute ''apply'')), s)
         | _ \<Rightarrow> Some (host_call E (VFunction f) vs, s))
      else if f = ''imagemath_convert'' then
        (case vs of
           [VOperand a, VStr mode] \<Rightarrow> returned (imagemath_convert E a mode s)
         | [VOperand a, _] \<Rightarrow> None
         | [_, _] \<Rightarrow> Some (Inl (AttributeError (no_attribute ''im'')), s)
         | _ \<Rightarrow> Some (host_call E (VFunction f) vs, s))
      else None)"

text \<open>
  Calling a value that is not a closure. \<^verbatim>\<open>abs(x)\<close> on an operand is \<^verbatim>\<open>x.__abs__()\<close>.
  Another built-in given an operand may call the operand's methods in ways this development
  does not follow (\<open>None\<close>); on other arguments the host computes.
\<close>

definition py_call :: "'p host \<Rightarrow> val \<Rightarrow> val list \<Rightarrow> 'p state \<Rightarrow> ((error + val) \<times> 'p state) option" where
  "py_call E f vs s =
     (case f of
        VFunction n \<Rightarrow> call_function E n vs s
      | VBuiltin b \<Rightarrow>
          (case (if b = ''abs'' then vs else []) of
             [VOperand a] \<Rightarrow> returned (Operand_abs E a s)
           | _ \<Rightarrow> (if list_ex is_operand vs then None else Some (host_call E f vs, s)))
      | _ \<Rightarrow> Some (host_call E f vs, s))"

text \<open>
  The evaluation of an expression, with fuel: \<open>None\<close> when the fuel runs out (a closure may
  call closures without end) or at a call that is not modelled. Every step costs one unit.
\<close>

fun py_exec ::
    "'p host \<Rightarrow> (string \<times> val) list \<Rightarrow> (string \<times> val) list \<Rightarrow> nat \<Rightarrow> scope \<Rightarrow> expr \<Rightarrow> 'p state
       \<Rightarrow> ((error + val) \<times> 'p state) option"
  and py_exec_list ::
    "'p host \<Rightarrow> (string \<times> val) list \<Rightarrow> (string \<times> val) list \<Rightarrow> nat \<Rightarrow> scope \<Rightarrow> expr list \<Rightarrow> 'p state
       \<Rightarrow> ((error + val list) \<times> 'p state) option" where
  "py_exec E g l 0 sc e s = None"
| "py_exec E g l (Suc n) sc (Name x) s =
     (case (if sc = Toplevel then load_name l g x else load_global g x) of
        Some v \<Rightarrow> Some (Inr v, s)
      | None \<Rightarrow> Some (Inl (NameError x), s))"
| "py_exec E g l (Suc n) sc (Constant c) s = Some (Inr (literal_val c), s)"
| "py_exec E g l (Suc n) sc (Lambda body) s = Some (Inr (VClosure body), s)"
| "py_exec E g l (Suc n) sc (UnaryOp u e) s =
     (case py_exec E g l n sc e s of
        None \<Rightarrow> None
      | Some (Inl err, s1) \<Rightarrow> Some (Inl err, s1)
      | Some (Inr v, s1) \<Rightarrow> py_unary E u v s1)"
| "py_exec E g l (Suc n) sc (BinOp e1 bop e2) s =
     (case py_exec E g l n sc e1 s of
        None \<Rightarrow> None
      | Some (Inl err, s1) \<Rightarrow> Some (Inl err, s1)
      | Some (Inr v1, s1) \<Rightarrow>
          (case py_exec E g l n sc e2 s1 of
             None \<Rightarrow> None
           | Some (Inl err, s2) \<Rightarrow> Some (Inl err, s2)
           | Some (Inr v2, s2) \<Rightarrow> py_binary E bop v1 v2 s2))"
| "py_exec E g l (Suc n) sc (Compare e1 cop e2) s =
     (case py_exec E g l n sc e1 s of
        None \<Rightarrow> None
      | Some (Inl err, s1) \<Rightarrow> Some (Inl err, s1)
      | Some (Inr v1, s1) \<Rightarrow>
          (case py_exec E g l n sc e2 s1 of
             None \<Rightarrow> None
           | Some (Inl err, s2) \<Rightarrow> Some (Inl err, s2)
           | Some (Inr v2, s2) \<Rightarrow> py_compare E cop v1 v2 s2))"
| "py_exec E g l (Suc n) sc (Call f as) s =
     (case py_exec E g l n sc f s of
        None \<Rightarrow> None
      | Some (Inl err, s1) \<Rightarrow> Some (Inl err, s1)
      | Some (Inr fv, s1) \<Rightarrow>
          (case py_exec_list E g l n sc as s1 of
             None \<Rightarrow> None
           | Some (Inl err, s2) \<Rightarrow> Some (Inl err, s2)
           | Some (Inr vs, s2) \<Rightarrow>
               (case fv of
                  VClosure body \<Rightarrow>
                    (if vs = [] then py_exec E g l n Nested body s2
                     else Some (host_call E fv vs, s2))
                | _ \<Rightarrow> py_call E fv vs s2)))"
| "py_exec_list E g l 0 sc es s = None"
| "py_exec_list E g l (Suc n) sc [] s = Some (Inr [], s)"
| "py_exec_list E g l (Suc n) sc (e # es) s =
     (case py_exec E g l n sc e s of
        None \<Rightarrow> None
      | Some (Inl err, s1) \<Rightarrow> Some (Inl err, s1)
      | Some (Inr v, s1) \<Rightarrow>
          (case py_exec_list E g l n sc es s1 of
             None \<Rightarrow> None
           | Some (Inl err, s2) \<Rightarrow> Some (Inl err, s2)
           | Some (Inr vs, s2) \<Rightarrow> Some (Inr (v # vs), s2)))"

text \<open>\<^verbatim>\<open>builtins.eval(expression, globals, locals)\<close>\<close>

definition builtins_eval ::
  "'p host \<Rightarrow> nat \<Rightarrow> expr option \<Rightarrow> (string \<times> val) list \<Rightarrow> (string \<times> val) list \<Rightarrow> 'p state
     \<Rightarrow> ((error + val) \<times> 'p state) option" where
  "builtins_eval E fuel expression globals locals s =
     (case expression of
        None \<Rightarrow> Some (Inl SyntaxError, s)
      | Some e \<Rightarrow> py_exec E (insert_builtins E globals) locals fuel Toplevel e s)"

subsection \<open>\<^verbatim>\<open>ImageMath.eval\<close>\<close>

text \<open>What \<^verbatim>\<open>eval\<close> returns: an image (the \<^verbatim>\<open>im\<close> of an operand), or the value as it is.\<close>

datatype result = RetImage nat | RetValue val

text \<open>Lines 273 to 276: \<^verbatim>\<open>out.im\<close>, and \<^verbatim>\<open>out\<close> itself when it has no such attribute.\<close>

fun unwrap :: "val \<Rightarrow> result" where
  "unwrap (VOperand r) = RetImage (im r)"
| "unwrap v = RetValue v"

text \<open>The globals line 272 passes: one key, \<^verbatim>\<open>__builtins\<close>, bound to a dictionary with \<^verbatim>\<open>abs\<close>.\<close>

definition eval_globals :: "(string \<times> val) list" where
  "eval_globals = [(''__builtins'', VDict [(''abs'', VBuiltin ''abs'')])]"

text \<open>Lines 247 to 257: the namespace \<open>args\<close> of a call whose keys passed the check.\<close>

definition build_args :: "(string \<times> raw) list \<Rightarrow> (string \<times> raw) list \<Rightarrow> 'p state \<Rightarrow> (string \<times> val) list \<times> 'p state" where
  "build_args dict kw s = wrap_all (dict_update (dict_update ops dict) kw) s"

definition ImageMath_eval ::
  "'p host \<Rightarrow> nat \<Rightarrow> expr option \<Rightarrow> (string \<times> raw) list \<Rightarrow> (string \<times> raw) list \<Rightarrow> 'p state
     \<Rightarrow> ((error + result) \<times> 'p state) option" where
  "ImageMath_eval E fuel expression dict kw s =
     (case check_keys E (map fst dict @ map fst kw) of
        Some err \<Rightarrow> Some (Inl err, s)
      | None \<Rightarrow>
          (case build_args dict kw s of
             (args, s1) \<Rightarrow>
               (case compile expression of
                  Inl err \<Rightarrow> Some (Inl err, s1)
                | Inr compiled_code \<Rightarrow>
                    (case scan args compiled_code of
                       Some err \<Rightarrow> Some (Inl err, s1)
                     | None \<Rightarrow>
                         (case builtins_eval E fuel expression eval_globals args s1 of
                            None \<Rightarrow> None
                          | Some (Inl err, s2) \<Rightarrow> Some (Inl err, s2)
                          | Some (Inr out, s2) \<Rightarrow> Some (Inr (unwrap out), s2))))))"

subsection \<open>Notions the statements use\<close>

text \<open>
  \<open>grows s s'\<close>: every image of \<open>s\<close> is in \<open>s'\<close> at its address with its mode, size and
  buffer; operand identities and kernel calls are only added.
\<close>

definition grows :: "'p state \<Rightarrow> 'p state \<Rightarrow> bool" where
  "grows s s' =
     (prefix (heap s) (heap s') \<and> next_oid s \<le> next_oid s' \<and> prefix (kernel_log s) (kernel_log s'))"

text \<open>
  \<open>produces_new s r\<close>: the call that gave \<open>r\<close> from the state \<open>s\<close> left the images of \<open>s\<close>
  as they were, and an operand it returns has an identity and an image that \<open>s\<close> did not have.
\<close>

definition produces_new :: "'p state \<Rightarrow> (error + operand) \<times> 'p state \<Rightarrow> bool" where
  "produces_new s r =
     (prefix (heap s) (heap (snd r)) \<and>
      (case fst r of
         Inl e \<Rightarrow> True
       | Inr x \<Rightarrow> next_oid s \<le> oid x \<and> oid x < next_oid (snd r) \<and>
                  length (heap s) \<le> im x \<and> im x < length (heap (snd r))))"



text \<open>
  What a caller sees of an outcome: the error, or the image itself (mode, size and buffer,
  not its address), or the value.
\<close>

definition seen :: "((error + result) \<times> 'p state) option \<Rightarrow> (error + 'p image + val) option" where
  "seen r =
     map_option
       (\<lambda>(x, s). case x of
            Inl e \<Rightarrow> Inl e
          | Inr (RetImage a) \<Rightarrow> Inr (Inl (heap s ! a))
          | Inr (RetValue v) \<Rightarrow> Inr (Inr v))
       r"

text \<open>A value refers to the heap correctly: an operand's image is allocated.\<close>

definition valid_val :: "'p state \<Rightarrow> val \<Rightarrow> bool" where
  "valid_val s v = (case v of VOperand x \<Rightarrow> im x < length (heap s) | _ \<Rightarrow> True)"

text \<open>The output image of a call, before the kernel has written it.\<close>

definition blank :: "'p host \<Rightarrow> string option \<Rightarrow> 'p image \<Rightarrow> 'p image" where
  "blank E mode i =
     \<lparr>im_mode = mode_or mode (im_mode i), im_size = im_size i,
      im_pixels = new_pixels E (mode_or mode (im_mode i)) (im_size i) None\<rparr>"

text \<open>
  The common size of two images, and an image cropped to a size from its top left corner
  (itself, when it has that size already).
\<close>

definition top_left_crop :: "'p host \<Rightarrow> 'p image \<Rightarrow> nat \<times> nat \<Rightarrow> 'p image" where
  "top_left_crop E i sz =
     (if im_size i = sz then i
      else \<lparr>im_mode = im_mode i, im_size = sz, im_pixels = crop_pixels E i (0, 0, fst sz, snd sz)\<rparr>)"

definition common_size :: "'p image \<Rightarrow> 'p image \<Rightarrow> nat \<times> nat" where
  "common_size i j = (min (fst (im_size i)) (fst (im_size j)), min (snd (im_size i)) (snd (im_size j)))"

text \<open>
  What the caller's arguments bind a name to: a keyword argument wins over an entry of the
  dictionary, as \<^verbatim>\<open>args.update(kw)\<close> comes last.
\<close>

definition binding :: "(string \<times> raw) list \<Rightarrow> (string \<times> raw) list \<Rightarrow> string \<Rightarrow> raw option" where
  "binding dict kw x = map_of (rev (dict @ kw)) x"

text \<open>What \<^verbatim>\<open>eval\<close> hands back for an object it found in the namespace.\<close>

fun bound_result :: "raw \<Rightarrow> result" where
  "bound_result (RImage a) = RetImage a"
| "bound_result (RInt n) = RetValue (VInt n)"
| "bound_result (RFloat f) = RetValue (VFloat f)"
| "bound_result (RFunction n) = RetValue (VFunction n)"
| "bound_result (RObject n) = RetValue (VObject n)"

text \<open>The operation name each binary operator passes to \<^verbatim>\<open>apply\<close>.\<close>

fun operation_name :: "operator \<Rightarrow> string" where
  "operation_name Add = ''add''"
| "operation_name Sub = ''sub''"
| "operation_name Mult = ''mul''"
| "operation_name Div = ''div''"
| "operation_name Mod = ''mod''"
| "operation_name Pow = ''pow''"
| "operation_name LShift = ''lshift''"
| "operation_name RShift = ''rshift''"
| "operation_name BitOr = ''or''"
| "operation_name BitXor = ''xor''"
| "operation_name BitAnd = ''and''"

subsection \<open>An instance on which the definitions run\<close>

text \<open>
  One number stands for a buffer. The kernels are those \<^verbatim>\<open>_imagingmath\<close> registers for the
  modes I and F; \<^verbatim>\<open>add\<close> adds, every other binary kernel subtracts, a unary kernel negates.
\<close>

definition demo_kernels :: "string list" where
  "demo_kernels =
     [''abs_I'', ''neg_I'', ''add_I'', ''sub_I'', ''mul_I'', ''div_I'', ''mod_I'', ''pow_I'',
      ''invert_I'', ''and_I'', ''or_I'', ''xor_I'', ''lshift_I'', ''rshift_I'',
      ''eq_I'', ''ne_I'', ''lt_I'', ''le_I'', ''gt_I'', ''ge_I'', ''min_I'', ''max_I'',
      ''abs_F'', ''neg_F'', ''add_F'', ''sub_F'', ''mul_F'', ''div_F'', ''mod_F'', ''pow_F'',
      ''eq_F'', ''ne_F'', ''lt_F'', ''le_F'', ''gt_F'', ''ge_F'', ''min_F'', ''max_F'']"

text \<open>
  The fills the image library takes: in mode I an \<^verbatim>\<open>int\<close> that fits 64 bits (a float is
  refused with \<^verbatim>\<open>TypeError\<close>, a larger \<^verbatim>\<open>int\<close> with \<^verbatim>\<open>OverflowError\<close>), in mode F a
  number.
\<close>

definition demo_fill_error :: "string \<Rightarrow> val \<Rightarrow> error option" where
  "demo_fill_error m c =
     (if m = ''I'' then
        (case c of
           VInt n \<Rightarrow>
             (if - (2 ^ 63) \<le> n \<and> n < 2 ^ 63 then None
              else Some (OverflowError ''Python int too large to convert to C long''))
         | VBool b \<Rightarrow> None
         | _ \<Rightarrow> Some (TypeError ''color must be int or single-element tuple''))
      else if is_number c then None
      else Some (ValueError ''unknown color specifier''))"

definition demo_modes :: "string list" where
  "demo_modes = [''1'', ''L'', ''P'', ''RGB'', ''RGBA'', ''CMYK'', ''YCbCr'', ''LAB'', ''HSV'', ''I'', ''F'']"

definition demo_host :: "int host" where
  "demo_host =
     \<lparr>new_pixels = (\<lambda>m sz c. case c of Some (VInt n) \<Rightarrow> n | _ \<Rightarrow> 0),
      fill_error = demo_fill_error,
      convert_pixels = (\<lambda>i m. im_pixels i),
      convert_error = (\<lambda>m m'. if m' \<in> set demo_modes then None
                                else Some (ValueError ''conversion not supported'')),
      crop_pixels = (\<lambda>i box. im_pixels i),
      has_kernel = (\<lambda>n. n \<in> set demo_kernels),
      unop = (\<lambda>k out a. - im_pixels a),
      binop = (\<lambda>k out a b. if k \<in> {''add_I'', ''add_F''} then im_pixels a + im_pixels b
                              else im_pixels a - im_pixels b),
      builtin_names = [''abs'', ''float'', ''int'', ''max'', ''min'', ''open'', ''eval'', ''__import__''],
      host_unary = (\<lambda>u v. Inl (TypeError [])),
      host_binary = (\<lambda>bop l r. Inl (TypeError [])),
      host_compare = (\<lambda>cop l r. Inl (TypeError [])),
      host_call = (\<lambda>f vs. Inl (TypeError []))\<rparr>"

definition demo_state :: "int state" where
  "demo_state =
     \<lparr>heap = [\<lparr>im_mode = ''L'', im_size = (4, 3), im_pixels = 7\<rparr>,
              \<lparr>im_mode = ''F'', im_size = (2, 5), im_pixels = 9\<rparr>,
              \<lparr>im_mode = ''I'', im_size = (4, 3), im_pixels = 5\<rparr>,
              \<lparr>im_mode = ''RGB'', im_size = (4, 3), im_pixels = 1\<rparr>],
      next_oid = 1, kernel_log = []\<rparr>"

section \<open>Properties\<close>

subsection \<open>States only grow\<close>

lemma grows_refl: "grows s s"
  by (simp add: grows_def)

lemma grows_trans: "grows s s1 \<Longrightarrow> grows s1 s2 \<Longrightarrow> grows s s2"
  unfolding grows_def by (meson le_trans prefix_order.trans)

lemma grows_nth: "grows s s' \<Longrightarrow> a < length (heap s) \<Longrightarrow> heap s' ! a = heap s ! a"
  unfolding grows_def by (auto simp: prefix_def nth_append)

lemma grows_length: "grows s s' \<Longrightarrow> length (heap s) \<le> length (heap s')"
  unfolding grows_def by (auto simp: prefix_def)

lemma prefix_update: "prefix xs ys \<Longrightarrow> length xs \<le> n \<Longrightarrow> prefix xs (ys[n := v])"
  by (auto simp: prefix_def list_update_append)

lemma Image_new_grows:
  "Image_new E m sz c s = (r, s') \<Longrightarrow>
     grows s s' \<and>
     (case r of Inl e \<Rightarrow> s' = s
      | Inr a \<Rightarrow> a = length (heap s) \<and> length (heap s') = Suc (length (heap s)))"
  by (auto simp: Image_new_def grows_def split: option.splits)

lemma Image_new_blank:
  "Image_new E m sz None s =
     (Inr (length (heap s)),
      s\<lparr>heap := heap s @ [\<lparr>im_mode = m, im_size = sz, im_pixels = new_pixels E m sz None\<rparr>]\<rparr>)"
  by (simp add: Image_new_def)

lemma convert_grows:
  "convert E x m s = (r, s') \<Longrightarrow>
     grows s s' \<and>
     (case r of Inl e \<Rightarrow> s' = s
      | Inr a \<Rightarrow> a = length (heap s) \<and> length (heap s') = Suc (length (heap s)))"
  by (auto simp: convert_def grows_def split: option.splits if_splits)

lemma crop_grows:
  "crop E x box s = (a, s') \<Longrightarrow>
     grows s s' \<and> a = length (heap s) \<and> length (heap s') = Suc (length (heap s))"
  by (auto simp: crop_def grows_def split: prod.splits)

lemma fixup_grows: "fixup E self v s = (r, s') \<Longrightarrow> grows s s'"
  by (auto simp: fixup_def grows_refl split: val.splits if_splits
           dest: Image_new_grows convert_grows)

lemma match_modes_grows: "match_modes E a b s = (r, s') \<Longrightarrow> grows s s'"
  by (auto simp: match_modes_def grows_refl split: if_splits prod.splits sum.splits
           dest!: convert_grows intro: grows_trans)

lemma match_sizes_grows: "match_sizes E a b s = (r, s') \<Longrightarrow> grows s s'"
  by (auto simp: match_sizes_def Let_def grows_refl split: if_splits prod.splits
           dest!: crop_grows intro: grows_trans)

lemma apply_new: "produces_new s (Operand_apply E self opname v1 v2 mode s)"
proof (cases "fixup E self v1 s")
  case (Pair r1 s1)
  note f1 = fixup_grows[OF Pair]
  show ?thesis
  proof (cases r1)
    case (Inl e)
    with Pair f1 show ?thesis by (simp add: Operand_apply_def produces_new_def grows_def)
  next
    case (Inr a1)
    show ?thesis
    proof (cases v2)
      case None
      have p: "prefix (heap s) (heap s1)" and l: "length (heap s) \<le> length (heap s1)"
        and o: "next_oid s \<le> next_oid s1"
        using f1 grows_length[OF f1] by (simp_all add: grows_def)
      show ?thesis using Pair Inr None p l o
        by (auto simp: Operand_apply_def produces_new_def Image_new_blank unop_call_def
                       Operand_init_def)
    next
      case (Some w)
      obtain r2 s2 where f2: "fixup E self w s1 = (r2, s2)" by (cases "fixup E self w s1")
      note g2 = grows_trans[OF f1 fixup_grows[OF f2]]
      show ?thesis
      proof (cases r2)
        case (Inl e)
        with Pair Inr Some f2 g2 show ?thesis
          by (simp add: Operand_apply_def produces_new_def grows_def)
      next
        case r2: (Inr a2)
        obtain r3 s3 where mm: "match_modes E a1 a2 s2 = (r3, s3)"
          by (cases "match_modes E a1 a2 s2")
        note g3 = grows_trans[OF g2 match_modes_grows[OF mm]]
        show ?thesis
        proof (cases r3)
          case (Inl e)
          with Pair Inr Some f2 r2 mm g3 show ?thesis
            by (simp add: Operand_apply_def produces_new_def grows_def)
        next
          case r3: (Inr ms)
          obtain m1 m2 where ms: "ms = (m1, m2)" by (cases ms)
          obtain c1 c2 s4 where mz: "match_sizes E m1 m2 s3 = ((c1, c2), s4)"
            by (cases "match_sizes E m1 m2 s3") auto
          note g4 = grows_trans[OF g3 match_sizes_grows[OF mz]]
          have p: "prefix (heap s) (heap s4)" and l: "length (heap s) \<le> length (heap s4)"
            and o: "next_oid s \<le> next_oid s4"
            using g4 grows_length[OF g4] by (simp_all add: grows_def)
          show ?thesis using Pair Inr Some f2 r2 mm r3 ms mz p l o
            by (auto simp: Operand_apply_def produces_new_def Image_new_blank binop_call_def
                           Operand_init_def)
        qed
      qed
    qed
  qed
qed

subsection \<open>C9: operators and their operands\<close>

text \<open>
  Claim C9, as amended. Every operator method other than unary plus (\<^verbatim>\<open>abs\<close>, unary minus,
  \<^verbatim>\<open>~\<close>, the eleven binary operators, the nine reflected ones, the six comparisons) leaves
  every image that existed before the call as it was, and, when it returns, returns an operand
  with a new identity that wraps a newly allocated image. Unary plus returns the operand it
  was called on, and changes nothing.
\<close>

theorem operators_produce_new_results:
  "produces_new s (Operand_abs E a s) \<and>
   produces_new s (Operand_neg E a s) \<and>
   produces_new s (Operand_invert E a s) \<and>
   produces_new s (Operand_binary E bop a v s) \<and>
   produces_new s (Operand_compare E cop a v s) \<and>
   (\<forall>m. Operand_reflected E bop = Some m \<longrightarrow> produces_new s (m a v s)) \<and>
   Operand_unary E UAdd a s = (Inr a, s)"
proof -
  have 1: "produces_new s (Operand_binary E bop a v s)"
    by (cases bop) (simp_all add: apply_new Operand_add_def Operand_sub_def Operand_mul_def
        Operand_truediv_def Operand_mod_def Operand_pow_def Operand_lshift_def Operand_rshift_def
        Operand_or_def Operand_xor_def Operand_and_def)
  have 2: "produces_new s (Operand_compare E cop a v s)"
    by (cases cop) (simp_all add: apply_new Operand_eq_def Operand_ne_def Operand_lt_def
        Operand_le_def Operand_gt_def Operand_ge_def)
  have 3: "\<forall>m. Operand_reflected E bop = Some m \<longrightarrow> produces_new s (m a v s)"
    by (cases bop) (auto simp: apply_new Operand_radd_def Operand_rsub_def Operand_rmul_def
        Operand_rtruediv_def Operand_rmod_def Operand_rpow_def Operand_ror_def Operand_rxor_def
        Operand_rand_def)
  show ?thesis using 1 2 3
    by (simp add: apply_new Operand_abs_def Operand_neg_def Operand_invert_def Operand_pos_def)
qed

theorem operators_produce_new_results_witness:
  "Operand_reflected demo_host Sub = Some (Operand_rsub demo_host) \<and>
   produces_new demo_state (Operand_rsub demo_host \<lparr>oid = 0, im = 0\<rparr> (VInt 2) demo_state) \<and>
   fst (Operand_rsub demo_host \<lparr>oid = 0, im = 0\<rparr> (VInt 2) demo_state) = Inr \<lparr>oid = 1, im = 6\<rparr>"
proof -
  have r: "Operand_reflected demo_host Sub = Some (Operand_rsub demo_host)" by simp
  have "produces_new demo_state (Operand_rsub demo_host \<lparr>oid = 0, im = 0\<rparr> (VInt 2) demo_state)"
    using operators_produce_new_results[of demo_state demo_host "\<lparr>oid = 0, im = 0\<rparr>" Sub "VInt 2" Eq] r
    by blast
  moreover have
    "fst (Operand_rsub demo_host \<lparr>oid = 0, im = 0\<rparr> (VInt 2) demo_state) = Inr \<lparr>oid = 1, im = 6\<rparr>"
    by (simp add: Operand_rsub_def Operand_apply_def fixup_def Image_new_def convert_def
        always_converts_def demo_fill_error_def
        demo_state_def demo_host_def demo_kernels_def match_modes_def match_sizes_def mode_or_def
        binop_call_def Operand_init_def)
  ultimately show ?thesis using r by simp
qed

text \<open>
  The claim as written counts unary plus among the operators that return a fresh operand.
  Operand 0 wraps image 0 of the example state; \<^verbatim>\<open>+x\<close> gives back that same operand.
\<close>

theorem unary_plus_returns_its_operand:
  "\<not> produces_new demo_state (Operand_unary demo_host UAdd \<lparr>oid = 0, im = 0\<rparr> demo_state)"
  by (simp add: produces_new_def Operand_pos_def demo_state_def)

subsection \<open>What normalisation and reconciliation return\<close>

lemma valid_val_grows: "valid_val s v \<Longrightarrow> grows s s' \<Longrightarrow> valid_val s' v"
  by (auto simp: valid_val_def split: val.splits dest: grows_length)

lemma fixup_result:
  assumes "fixup E self v s = (Inr a, s')" and "valid_val s v"
  shows "a < length (heap s') \<and> im_mode (heap s' ! a) \<in> {''I'', ''F''}"
  using assms
  by (auto simp: fixup_def valid_val_def Image_new_def convert_def nth_append
           split: val.splits if_splits option.splits)

lemma fixup_log: "fixup E self v s = (r, s') \<Longrightarrow> kernel_log s' = kernel_log s"
  by (auto simp: fixup_def Image_new_def convert_def split: val.splits if_splits option.splits)

lemma match_modes_result:
  assumes "a < length (heap s)" and "b < length (heap s)"
    and "im_mode (heap s ! a) \<in> {''I'', ''F''}" and "im_mode (heap s ! b) \<in> {''I'', ''F''}"
  shows "\<exists>a' b' s'. match_modes E a b s = (Inr (a', b'), s') \<and>
           a' < length (heap s') \<and> b' < length (heap s') \<and>
           im_size (heap s' ! a') = im_size (heap s ! a) \<and>
           im_size (heap s' ! b') = im_size (heap s ! b) \<and>
           kernel_log s' = kernel_log s \<and>
           (if im_mode (heap s ! a) = im_mode (heap s ! b)
            then a' = a \<and> b' = b \<and> s' = s
            else im_mode (heap s' ! a') = ''F'' \<and> im_mode (heap s' ! b') = ''F'')"
  using assms
  by (auto simp: match_modes_def convert_def always_converts_def nth_append)

lemma match_sizes_result:
  assumes "match_sizes E a b s = ((a', b'), s')" and "a < length (heap s)" and "b < length (heap s)"
  shows "a' < length (heap s') \<and> b' < length (heap s') \<and>
         im_mode (heap s' ! a') = im_mode (heap s ! a) \<and>
         im_mode (heap s' ! b') = im_mode (heap s ! b) \<and>
         kernel_log s' = kernel_log s \<and>
         im_size (heap s' ! a') =
           (min (fst (im_size (heap s ! a))) (fst (im_size (heap s ! b))),
            min (snd (im_size (heap s ! a))) (snd (im_size (heap s ! b)))) \<and>
         im_size (heap s' ! b') = im_size (heap s' ! a')"
  using assms
  by (auto simp: match_sizes_def Let_def crop_def nth_append prod_eq_iff split: if_splits)

lemma apply_binary:
  assumes "fixup E self v1 s = (Inr a1, s1)"
    and "fixup E self v2 s1 = (Inr a2, s2)"
    and "match_modes E a1 a2 s2 = (Inr (m1, m2), s3)"
    and "match_sizes E m1 m2 s3 = ((c1, c2), s4)"
    and "c1 < length (heap s4)" and "c2 < length (heap s4)"
  shows "Operand_apply E self opname v1 (Some v2) mode s =
     (if has_kernel E (opname @ ''_'' @ im_mode (heap s4 ! c1)) then
        (Inr \<lparr>oid = next_oid s4, im = length (heap s4)\<rparr>,
         s4\<lparr>heap := heap s4 @
                 [(blank E mode (heap s4 ! c1))
                    \<lparr>im_pixels := binop E (opname @ ''_'' @ im_mode (heap s4 ! c1))
                                    (blank E mode (heap s4 ! c1)) (heap s4 ! c1) (heap s4 ! c2)\<rparr>],
            kernel_log := kernel_log s4 @
                 [(opname @ ''_'' @ im_mode (heap s4 ! c1), [length (heap s4), c1, c2])],
            next_oid := Suc (next_oid s4)\<rparr>)
      else (Inl (TypeError (bad_operand_type opname)),
            s4\<lparr>heap := heap s4 @ [blank E mode (heap s4 ! c1)]\<rparr>))"
  using assms
  by (simp add: Operand_apply_def Image_new_blank binop_call_def Operand_init_def blank_def nth_append)

lemma apply_unary:
  assumes "fixup E self v1 s = (Inr a1, s1)" and "a1 < length (heap s1)"
  shows "Operand_apply E self opname v1 None mode s =
     (if has_kernel E (opname @ ''_'' @ im_mode (heap s1 ! a1)) then
        (Inr \<lparr>oid = next_oid s1, im = length (heap s1)\<rparr>,
         s1\<lparr>heap := heap s1 @
                 [(blank E mode (heap s1 ! a1))
                    \<lparr>im_pixels := unop E (opname @ ''_'' @ im_mode (heap s1 ! a1))
                                    (blank E mode (heap s1 ! a1)) (heap s1 ! a1)\<rparr>],
            kernel_log := kernel_log s1 @
                 [(opname @ ''_'' @ im_mode (heap s1 ! a1), [length (heap s1), a1])],
            next_oid := Suc (next_oid s1)\<rparr>)
      else (Inl (TypeError (bad_operand_type opname)),
            s1\<lparr>heap := heap s1 @ [blank E mode (heap s1 ! a1)]\<rparr>))"
  using assms
  by (simp add: Operand_apply_def Image_new_blank unop_call_def Operand_init_def blank_def nth_append)

lemma match_sizes_crops:
  assumes "match_sizes E a b t = ((a', b'), t')" and "a < length (heap t)" and "b < length (heap t)"
  shows "heap t' ! a' = top_left_crop E (heap t ! a) (common_size (heap t ! a) (heap t ! b)) \<and>
         heap t' ! b' = top_left_crop E (heap t ! b) (common_size (heap t ! a) (heap t ! b))"
  using assms
  by (auto simp: match_sizes_def Let_def crop_def nth_append top_left_crop_def common_size_def
           split: if_splits)


subsection \<open>C4: normalisation of an operand\<close>




subsection \<open>C5: operands of different modes\<close>




subsection \<open>C6: operands of different sizes\<close>

text \<open>
  Claim C6. A binary operation whose operands normalise never fails because of their sizes:
  the only error left is the missing kernel. The kernel is called on two images of the
  common size (the smaller width and the smaller height), the result has that size, and the
  size reconciliation gives each image cropped to the common size from its top left corner.
\<close>

theorem sizes_meet_in_minimum:
  assumes f1: "fixup E self v1 s = (Inr a1, s1)"
    and f2: "fixup E self v2 s1 = (Inr a2, s2)"
    and v1: "valid_val s v1" and v2: "valid_val s v2"
    and ms: "match_sizes E a b t = ((a', b'), t')" and a: "a < length (heap t)" and b: "b < length (heap t)"
  shows "(case Operand_apply E self opname v1 (Some v2) mode s of
            (Inl e, s') \<Rightarrow> e = TypeError (bad_operand_type opname)
          | (Inr r, s') \<Rightarrow>
              im_size (heap s' ! im r) = common_size (heap s2 ! a1) (heap s2 ! a2) \<and>
              (\<exists>k c1 c2. kernel_log s' = kernel_log s @ [(k, [im r, c1, c2])] \<and>
                 im_size (heap s' ! c1) = common_size (heap s2 ! a1) (heap s2 ! a2) \<and>
                 im_size (heap s' ! c2) = common_size (heap s2 ! a1) (heap s2 ! a2))) \<and>
         heap t' ! a' = top_left_crop E (heap t ! a) (common_size (heap t ! a) (heap t ! b)) \<and>
         heap t' ! b' = top_left_crop E (heap t ! b) (common_size (heap t ! a) (heap t ! b))"
proof -
  have g1: "grows s s1" and g2: "grows s1 s2" using fixup_grows f1 f2 by blast+
  have a1: "a1 < length (heap s1)" using fixup_result[OF f1 v1] by simp
  have a2: "a2 < length (heap s2)" using fixup_result[OF f2 valid_val_grows[OF v2 g1]] by simp
  have a1': "a1 < length (heap s2)" using a1 grows_length[OF g2] by simp
  have k1: "kernel_log s1 = kernel_log s" using fixup_log[OF f1] .
  have k2: "kernel_log s2 = kernel_log s1" using fixup_log[OF f2] .
  have i1: "im_mode (heap s2 ! a1) \<in> {''I'', ''F''}"
    using fixup_result[OF f1 v1] grows_nth[OF g2 a1] by simp
  have i2: "im_mode (heap s2 ! a2) \<in> {''I'', ''F''}"
    using fixup_result[OF f2 valid_val_grows[OF v2 g1]] by simp
  from match_modes_result[OF a1' a2 i1 i2, of E]
  obtain m1 m2 s3 where mm: "match_modes E a1 a2 s2 = (Inr (m1, m2), s3)"
    and M: "m1 < length (heap s3) \<and> m2 < length (heap s3) \<and>
           im_size (heap s3 ! m1) = im_size (heap s2 ! a1) \<and>
           im_size (heap s3 ! m2) = im_size (heap s2 ! a2) \<and>
           kernel_log s3 = kernel_log s2 \<and>
           (if im_mode (heap s2 ! a1) = im_mode (heap s2 ! a2)
            then m1 = a1 \<and> m2 = a2 \<and> s3 = s2
            else im_mode (heap s3 ! m1) = ''F'' \<and> im_mode (heap s3 ! m2) = ''F'')"
    by blast
  obtain c1 c2 s4 where ms': "match_sizes E m1 m2 s3 = ((c1, c2), s4)"
    by (cases "match_sizes E m1 m2 s3") auto
  have m1: "m1 < length (heap s3)" and m2: "m2 < length (heap s3)" using M by simp_all
  note Z = match_sizes_result[OF ms' m1 m2]
  have c1: "c1 < length (heap s4)" and c2: "c2 < length (heap s4)" using Z by simp_all
  have S1: "im_size (heap s4 ! c1) = common_size (heap s2 ! a1) (heap s2 ! a2)"
    and S2: "im_size (heap s4 ! c2) = common_size (heap s2 ! a1) (heap s2 ! a2)"
    using M Z by (simp_all add: common_size_def)
  have kl: "kernel_log s4 = kernel_log s" using M Z k1 k2 by simp
  have "case Operand_apply E self opname v1 (Some v2) mode s of
            (Inl e, s') \<Rightarrow> e = TypeError (bad_operand_type opname)
          | (Inr r, s') \<Rightarrow>
              im_size (heap s' ! im r) = common_size (heap s2 ! a1) (heap s2 ! a2) \<and>
              (\<exists>k c1 c2. kernel_log s' = kernel_log s @ [(k, [im r, c1, c2])] \<and>
                 im_size (heap s' ! c1) = common_size (heap s2 ! a1) (heap s2 ! a2) \<and>
                 im_size (heap s' ! c2) = common_size (heap s2 ! a1) (heap s2 ! a2))"
    unfolding apply_binary[OF f1 f2 mm ms' c1 c2]
    using S1 S2 c1 c2 kl
    by (auto simp: nth_append blank_def)
  then show ?thesis using match_sizes_crops[OF ms a b] by simp
qed


theorem sizes_meet_in_minimum_witness:
  "fixup demo_host \<lparr>oid = 0, im = 2\<rparr> (VOperand \<lparr>oid = 0, im = 2\<rparr>) demo_state = (Inr 2, demo_state) \<and>
   fixup demo_host \<lparr>oid = 0, im = 2\<rparr> (VOperand \<lparr>oid = 1, im = 1\<rparr>) demo_state = (Inr 1, demo_state) \<and>
   im_size (heap demo_state ! 2) = (4, 3) \<and> im_size (heap demo_state ! 1) = (2, 5) \<and>
   (case Operand_apply demo_host \<lparr>oid = 0, im = 2\<rparr> ''add'' (VOperand \<lparr>oid = 0, im = 2\<rparr>)
           (Some (VOperand \<lparr>oid = 1, im = 1\<rparr>)) None demo_state of
      (Inl e, s') \<Rightarrow> False
    | (Inr r, s') \<Rightarrow> im_size (heap s' ! im r) = (2, 3)) \<and>
   fst (match_sizes demo_host 2 1 demo_state) = (4, 5) \<and>
   heap (snd (match_sizes demo_host 2 1 demo_state)) ! 4 = \<lparr>im_mode = ''I'', im_size = (2, 3), im_pixels = 5\<rparr>"
proof -
  have f1: "fixup demo_host \<lparr>oid = 0, im = 2\<rparr> (VOperand \<lparr>oid = 0, im = 2\<rparr>) demo_state = (Inr 2, demo_state)"
    by (simp add: fixup_def demo_state_def)
  have f2: "fixup demo_host \<lparr>oid = 0, im = 2\<rparr> (VOperand \<lparr>oid = 1, im = 1\<rparr>) demo_state = (Inr 1, demo_state)"
    by (simp add: fixup_def demo_state_def)
  have v: "valid_val demo_state (VOperand \<lparr>oid = 0, im = 2\<rparr>)" "valid_val demo_state (VOperand \<lparr>oid = 1, im = 1\<rparr>)"
    by (simp_all add: valid_val_def demo_state_def)
  obtain t' where ms: "match_sizes demo_host 2 1 demo_state = ((4, 5), t')"
    by (simp add: match_sizes_def crop_def demo_state_def Let_def)
  have l: "2 < length (heap demo_state)" "1 < length (heap demo_state)" by (simp_all add: demo_state_def)
  have z: "im_size (heap demo_state ! 2) = (4, 3)" "im_size (heap demo_state ! 1) = (2, 5)"
    by (simp_all add: demo_state_def)
  have c: "common_size (heap demo_state ! 2) (heap demo_state ! 1) = (2, 3)"
    by (simp add: common_size_def demo_state_def)
  have e: "fst (Operand_apply demo_host \<lparr>oid = 0, im = 2\<rparr> ''add'' (VOperand \<lparr>oid = 0, im = 2\<rparr>)
           (Some (VOperand \<lparr>oid = 1, im = 1\<rparr>)) None demo_state) = Inr \<lparr>oid = 1, im = 7\<rparr>"
    by (simp add: Operand_apply_def fixup_def Image_new_def convert_def crop_def always_converts_def
        demo_state_def demo_host_def demo_kernels_def match_modes_def match_sizes_def mode_or_def
        binop_call_def Operand_init_def Let_def)
  have t: "top_left_crop demo_host (heap demo_state ! 2) (2, 3) = \<lparr>im_mode = ''I'', im_size = (2, 3), im_pixels = 5\<rparr>"
    by (simp add: top_left_crop_def demo_state_def demo_host_def)
  show ?thesis
    using sizes_meet_in_minimum[OF f1 f2 v ms l, of "''add''" None] f1 f2 z c e t ms
    by (auto split: prod.splits sum.splits)
qed

subsection \<open>The namespace and the scan\<close>

lemma ops_table:
  "ops = [(''int'', RFunction ''imagemath_int''), (''float'', RFunction ''imagemath_float''),
          (''equal'', RFunction ''imagemath_equal''), (''notequal'', RFunction ''imagemath_notequal''),
          (''min'', RFunction ''imagemath_min''), (''max'', RFunction ''imagemath_max''),
          (''convert'', RFunction ''imagemath_convert'')]"
  by (simp add: ops_def module_globals_def)

lemma ops_keys: "fst ` set ops = {''int'', ''float'', ''equal'', ''notequal'', ''min'', ''max'', ''convert''}"
  by (simp add: ops_table)

lemma dict_update_keys: "fst ` set (dict_update d kvs) = fst ` set d \<union> fst ` set kvs"
  by (induction d kvs rule: dict_update.induct) (auto simp: dom_update)

lemma dict_update_map_of:
  "map_of (dict_update d kvs) x = (case map_of (rev kvs) x of Some v \<Rightarrow> Some v | None \<Rightarrow> map_of d x)"
  by (induction d kvs rule: dict_update.induct) (auto simp: update_conv' map_add_def split: option.splits)

lemma namespace_lookup:
  "map_of (dict_update (dict_update d dict) kw) x =
     (case binding dict kw x of Some v \<Rightarrow> Some v | None \<Rightarrow> map_of d x)"
  by (simp add: dict_update_map_of binding_def map_add_def split: option.splits)

lemma has_dunder_intro: "has_dunder (u @ ''__'' @ v)"
proof (induction u)
  case Nil
  then show ?case by simp
next
  case (Cons c u)
  then show ?case by (cases "u @ ''__'' @ v") auto
qed

lemma has_dunder_elim: "has_dunder k \<Longrightarrow> \<exists>u v. k = u @ ''__'' @ v"
proof (induction k rule: has_dunder.induct)
  case (1 a b r)
  show ?case
  proof (cases "a = CHR ''_'' \<and> b = CHR ''_''")
    case True
    then have "a # b # r = [] @ ''__'' @ r" by simp
    then show ?thesis by blast
  next
    case False
    with 1 obtain u v where "b # r = u @ ''__'' @ v" by auto
    then have "a # b # r = (a # u) @ ''__'' @ v" by simp
    then show ?thesis by blast
  qed
qed simp_all

lemma has_dunder_iff: "has_dunder k \<longleftrightarrow> (\<exists>u v. k = u @ ''__'' @ v)"
  using has_dunder_intro has_dunder_elim by blast

lemma check_keys_None: "check_keys E ks = None \<longleftrightarrow> (\<forall>k \<in> set ks. \<not> has_dunder k \<and> k \<notin> set (builtin_names E))"
  by (induction ks) auto

lemma check_keys_Some:
  "check_keys E ks = Some e \<Longrightarrow>
     \<exists>k \<in> set ks. e = ValueError (not_allowed k) \<and> (has_dunder k \<or> k \<in> set (builtin_names E))"
  by (induction ks) (auto split: if_splits)

lemma wrap_keeps: "wrap v s = (w, s') \<Longrightarrow> heap s' = heap s \<and> kernel_log s' = kernel_log s \<and> next_oid s \<le> next_oid s'"
  by (cases v) (auto simp: Operand_init_def)

lemma wrap_all_keeps:
  "wrap_all kvs s = (ws, s') \<Longrightarrow>
     heap s' = heap s \<and> kernel_log s' = kernel_log s \<and> next_oid s \<le> next_oid s' \<and> map fst ws = map fst kvs"
proof (induction kvs arbitrary: s ws s')
  case Nil
  then show ?case by simp
next
  case (Cons kv kvs)
  obtain k v where kv: "kv = (k, v)" by (cases kv)
  obtain w s1 where w: "wrap v s = (w, s1)" by (cases "wrap v s")
  obtain rest s2 where r: "wrap_all kvs s1 = (rest, s2)" by (cases "wrap_all kvs s1")
  from Cons.prems kv w r have e: "ws = (k, w) # rest" "s' = s2" by auto
  from Cons.IH[OF r] wrap_keeps[OF w] e kv show ?case by auto
qed

lemma wrap_all_image:
  "wrap_all kvs s = (ws, s') \<Longrightarrow> map_of kvs x = Some (RImage a) \<Longrightarrow>
     \<exists>r. map_of ws x = Some (VOperand r) \<and> im r = a"
proof (induction kvs arbitrary: s ws s')
  case Nil
  then show ?case by simp
next
  case (Cons kv kvs)
  obtain k v where kv: "kv = (k, v)" by (cases kv)
  obtain w s1 where w: "wrap v s = (w, s1)" by (cases "wrap v s")
  obtain rest s2 where r: "wrap_all kvs s1 = (rest, s2)" by (cases "wrap_all kvs s1")
  from Cons.prems kv w r have e: "ws = (k, w) # rest" by auto
  show ?case
  proof (cases "k = x")
    case True
    with Cons.prems(2) kv have "v = RImage a" by simp
    with w True e show ?thesis by (auto simp: Operand_init_def)
  next
    case False
    with Cons.prems(2) kv have "map_of kvs x = Some (RImage a)" by simp
    from Cons.IH[OF r this] False e show ?thesis by simp
  qed
qed










lemma build_args_keeps:
  "build_args dict kw s = (args, s') \<Longrightarrow>
     heap s' = heap s \<and> kernel_log s' = kernel_log s \<and> next_oid s \<le> next_oid s' \<and>
     fst ` set args = fst ` set ops \<union> fst ` set dict \<union> fst ` set kw"
proof -
  assume b: "build_args dict kw s = (args, s')"
  then have w: "wrap_all (dict_update (dict_update ops dict) kw) s = (args, s')"
    by (simp add: build_args_def)
  have "fst ` set args = set (map fst args)" by simp
  also have "\<dots> = set (map fst (dict_update (dict_update ops dict) kw))"
    using wrap_all_keeps[OF w] by simp
  also have "\<dots> = fst ` set ops \<union> fst ` set dict \<union> fst ` set kw"
    by (simp add: dict_update_keys)
  finally show ?thesis using wrap_all_keeps[OF w] by simp
qed

lemma wrap_unwrap: "wrap v s = (w, s') \<Longrightarrow> unwrap w = bound_result v"
  by (cases v) (auto simp: Operand_init_def)

lemma wrap_all_lookup:
  "wrap_all kvs s = (ws, s') \<Longrightarrow> map_of kvs x = Some v \<Longrightarrow>
     \<exists>w. map_of ws x = Some w \<and> unwrap w = bound_result v"
proof (induction kvs arbitrary: s ws s')
  case Nil
  then show ?case by simp
next
  case (Cons kv kvs)
  obtain k v0 where kv: "kv = (k, v0)" by (cases kv)
  obtain w0 s1 where w: "wrap v0 s = (w0, s1)" by (cases "wrap v0 s")
  obtain rest s2 where r: "wrap_all kvs s1 = (rest, s2)" by (cases "wrap_all kvs s1")
  from Cons.prems kv w r have e: "ws = (k, w0) # rest" by auto
  show ?case
  proof (cases "k = x")
    case True
    with Cons.prems(2) kv have "v0 = v" by simp
    with w True e wrap_unwrap[OF w] show ?thesis by auto
  next
    case False
    with Cons.prems(2) kv have "map_of kvs x = Some v" by simp
    from Cons.IH[OF r this] False e show ?thesis by simp
  qed
qed

lemma map_of_keys: "map_of xs x = Some v \<Longrightarrow> x \<in> fst ` set xs"
  by (induction xs) (auto split: if_splits)

lemma eval_bound_name:
  assumes valid: "check_keys E (map fst dict @ map fst kw) = None"
    and b: "binding dict kw x = Some v"
  shows "\<exists>s'. ImageMath_eval E (Suc n) (Some (Name x)) dict kw s = Some (Inr (bound_result v), s') \<and>
              heap s' = heap s \<and> kernel_log s' = kernel_log s"
proof -
  obtain args s1 where ba: "build_args dict kw s = (args, s1)" by (cases "build_args dict kw s")
  then have w: "wrap_all (dict_update (dict_update ops dict) kw) s = (args, s1)"
    by (simp add: build_args_def)
  have l: "map_of (dict_update (dict_update ops dict) kw) x = Some v"
    using b by (simp add: namespace_lookup)
  from wrap_all_lookup[OF w l] obtain w0 where w0: "map_of args x = Some w0" "unwrap w0 = bound_result v"
    by blast
  have k: "x \<in> fst ` set args" using map_of_keys[OF w0(1)] .
  have sc: "scan args (Code [] [x]) = None" using k by simp
  have ex: "builtins_eval E (Suc n) (Some (Name x)) eval_globals args s1 = Some (Inr w0, s1)"
    using w0 by (simp add: builtins_eval_def load_name_def)
  show ?thesis
    using valid ba sc ex w0 build_args_keeps[OF ba]
    by (simp add: ImageMath_eval_def compile_def)
qed


subsection \<open>C2: a name outside the namespace\<close>





subsection \<open>C3: a refused binding key\<close>

text \<open>
  Claim C3. When a key of the dictionary or of the keyword arguments contains two
  consecutive underscores, or is an attribute of the module \<^verbatim>\<open>builtins\<close>, \<^verbatim>\<open>eval\<close>
  raises \<^verbatim>\<open>ValueError\<close> ("... not allowed") for one of the keys, whatever the expression
  (a text that does not parse too), and the state is exactly the one it started from.
\<close>

theorem forbidden_binding_key_stops_everything:
  assumes "k \<in> fst ` set dict \<union> fst ` set kw"
    and "(\<exists>u v. k = u @ ''__'' @ v) \<or> k \<in> set (builtin_names E)"
  shows "\<exists>k' \<in> fst ` set dict \<union> fst ` set kw.
           ImageMath_eval E fuel expression dict kw s = Some (Inl (ValueError (not_allowed k')), s)"
proof -
  have "check_keys E (map fst dict @ map fst kw) \<noteq> None"
    using assms by (auto simp: check_keys_None has_dunder_iff)
  then obtain err where e: "check_keys E (map fst dict @ map fst kw) = Some err" by auto
  from check_keys_Some[OF e] obtain k' where "k' \<in> set (map fst dict @ map fst kw)"
    and "err = ValueError (not_allowed k')" by blast
  with e show ?thesis by (auto simp: ImageMath_eval_def)
qed

theorem forbidden_binding_key_stops_everything_witness:
  "''a__b'' \<in> fst ` set [(''a__b'', RInt 1)] \<union> fst ` set ([] :: (string \<times> raw) list) \<and>
   ''a__b'' = ''a'' @ ''__'' @ ''b'' \<and>
   ImageMath_eval demo_host 9 (Some (Name ''a__b'')) [(''a__b'', RInt 1)] [] demo_state =
     Some (Inl (ValueError (not_allowed ''a__b'')), demo_state)"
proof -
  have 1: "''a__b'' \<in> fst ` set [(''a__b'', RInt 1)] \<union> fst ` set ([] :: (string \<times> raw) list)" by simp
  have 2: "(\<exists>u v. ''a__b'' = u @ ''__'' @ v) \<or> ''a__b'' \<in> set (builtin_names demo_host)"
    using has_dunder_iff[of "''a__b''"] by simp
  show ?thesis
    using forbidden_binding_key_stops_everything[OF 1 2, of 9 "Some (Name ''a__b'')" demo_state]
    by simp
qed


subsection \<open>C7: a name bound to an image\<close>

text \<open>
  Claim C7. When the keys are allowed and the name \<open>x\<close> is bound to an image,
  \<^verbatim>\<open>eval("x", ...)\<close> returns that image (the same object, at the same address), no image
  is allocated or written, and no kernel is called. No call of \<^verbatim>\<open>eval\<close> returns an operand.
\<close>

theorem bound_image_is_returned:
  assumes "\<forall>k \<in> fst ` set dict \<union> fst ` set kw. \<not> (\<exists>u v. k = u @ ''__'' @ v) \<and> k \<notin> set (builtin_names E)"
    and "binding dict kw x = Some (RImage a)"
  shows "(\<exists>s'. ImageMath_eval E (Suc n) (Some (Name x)) dict kw s = Some (Inr (RetImage a), s') \<and>
               heap s' = heap s \<and> kernel_log s' = kernel_log s) \<and>
         ImageMath_eval E fuel e d k t \<noteq> Some (Inr (RetValue (VOperand r)), t')"
proof -
  have v: "check_keys E (map fst dict @ map fst kw) = None"
    using assms(1) by (auto simp: check_keys_None has_dunder_iff)
  have u: "unwrap w \<noteq> RetValue (VOperand r)" for w by (cases w) auto
  have "ImageMath_eval E fuel e d k t \<noteq> Some (Inr (RetValue (VOperand r)), t')"
    by (auto simp: ImageMath_eval_def u split: option.splits prod.splits sum.splits)
  then show ?thesis using eval_bound_name[OF v assms(2), of n s] by simp
qed

theorem bound_image_is_returned_witness:
  "binding [(''x'', RImage 2)] [] ''x'' = Some (RImage 2) \<and>
   (\<exists>s'. ImageMath_eval demo_host 1 (Some (Name ''x'')) [(''x'', RImage 2)] [] demo_state =
            Some (Inr (RetImage 2), s') \<and> heap s' = heap demo_state \<and> kernel_log s' = kernel_log demo_state)"
proof -
  have 1: "\<forall>k \<in> fst ` set [(''x'', RImage 2)] \<union> fst ` set ([] :: (string \<times> raw) list).
             \<not> (\<exists>u v. k = u @ ''__'' @ v) \<and> k \<notin> set (builtin_names demo_host)"
    using has_dunder_iff[of "''x''"] by (simp add: demo_host_def)
  have 2: "binding [(''x'', RImage 2)] [] ''x'' = Some (RImage 2)" by (simp add: binding_def)
  show ?thesis using bound_image_is_returned[OF 1 2, of 0 demo_state] 2 by simp
qed


subsection \<open>C10: the names of the vocabulary as binding keys\<close>

text \<open>
  Claim C10. Given that \<^verbatim>\<open>int\<close>, \<^verbatim>\<open>float\<close>, \<^verbatim>\<open>min\<close> and \<^verbatim>\<open>max\<close> are attributes of
  \<^verbatim>\<open>builtins\<close> and that \<^verbatim>\<open>equal\<close>, \<^verbatim>\<open>notequal\<close> and \<^verbatim>\<open>convert\<close> are not: a binding
  whose key is one of the first four is refused with \<^verbatim>\<open>ValueError\<close>; a binding whose key
  is one of the last three is accepted, and the name then stands for the bound object and no
  longer for the helper of \<^verbatim>\<open>ops\<close>.
\<close>

theorem vocabulary_names_as_binding_keys:
  assumes "{''int'', ''float'', ''min'', ''max''} \<subseteq> set (builtin_names E)"
    and "{''equal'', ''notequal'', ''convert''} \<inter> set (builtin_names E) = {}"
  shows "(k \<in> {''int'', ''float'', ''min'', ''max''} \<longrightarrow>
            k \<in> fst ` set ops \<and>
            ImageMath_eval E fuel expression [(k, v)] [] s = Some (Inl (ValueError (not_allowed k)), s)) \<and>
         (k \<in> {''equal'', ''notequal'', ''convert''} \<longrightarrow>
            ImageMath_eval E (Suc n) (Some (Name k)) [] [] s =
              Some (Inr (RetValue (VFunction (''imagemath_'' @ k))), s) \<and>
            (\<exists>s'. ImageMath_eval E (Suc n) (Some (Name k)) [(k, v)] [] s = Some (Inr (bound_result v), s') \<and>
                  heap s' = heap s \<and> kernel_log s' = kernel_log s))"
proof (intro conjI impI)
  assume k: "k \<in> {''int'', ''float'', ''min'', ''max''}"
  then show "k \<in> fst ` set ops" by (auto simp: ops_table)
  from k assms(1) have "k \<in> set (builtin_names E)" by auto
  then show "ImageMath_eval E fuel expression [(k, v)] [] s = Some (Inl (ValueError (not_allowed k)), s)"
    by (simp add: ImageMath_eval_def)
next
  assume k: "k \<in> {''equal'', ''notequal'', ''convert''}"
  show "ImageMath_eval E (Suc n) (Some (Name k)) [] [] s =
          Some (Inr (RetValue (VFunction (''imagemath_'' @ k))), s)"
    using k
    by (auto simp: ImageMath_eval_def build_args_def ops_table compile_def builtins_eval_def
        load_name_def)
  have nb: "k \<notin> set (builtin_names E)" using k assms(2) by auto
  have nd: "\<not> has_dunder k" using k by auto
  have v: "check_keys E (map fst [(k, v)] @ map fst ([] :: (string \<times> raw) list)) = None"
    using nb nd by simp
  have b: "binding [(k, v)] [] k = Some v" by (simp add: binding_def)
  show "\<exists>s'. ImageMath_eval E (Suc n) (Some (Name k)) [(k, v)] [] s = Some (Inr (bound_result v), s') \<and>
             heap s' = heap s \<and> kernel_log s' = kernel_log s"
    using eval_bound_name[OF v b] .
qed

theorem vocabulary_names_as_binding_keys_witness:
  "{''int'', ''float'', ''min'', ''max''} \<subseteq> set (builtin_names demo_host) \<and>
   {''equal'', ''notequal'', ''convert''} \<inter> set (builtin_names demo_host) = {} \<and>
   ImageMath_eval demo_host 1 (Some (Name ''min'')) [(''min'', RInt 3)] [] demo_state =
     Some (Inl (ValueError (not_allowed ''min'')), demo_state) \<and>
   ImageMath_eval demo_host 1 (Some (Name ''equal'')) [] [] demo_state =
     Some (Inr (RetValue (VFunction ''imagemath_equal'')), demo_state) \<and>
   (\<exists>s'. ImageMath_eval demo_host 1 (Some (Name ''equal'')) [(''equal'', RInt 3)] [] demo_state =
            Some (Inr (RetValue (VInt 3)), s'))"
proof -
  have 1: "{''int'', ''float'', ''min'', ''max''} \<subseteq> set (builtin_names demo_host)"
    by (simp add: demo_host_def)
  have 2: "{''equal'', ''notequal'', ''convert''} \<inter> set (builtin_names demo_host) = {}"
    by (simp add: demo_host_def)
  show ?thesis
    using vocabulary_names_as_binding_keys[OF 1 2, of "''min''" 1 "Some (Name ''min'')" "RInt 3" demo_state 0]
          vocabulary_names_as_binding_keys[OF 1 2, of "''equal''" 1 "Some (Name ''equal'')" "RInt 3" demo_state 0]
          1 2
    by auto
qed

subsection \<open>Left-handed and right-handed forms\<close>

lemmas left_defs = Operand_add_def Operand_sub_def Operand_mul_def Operand_truediv_def
  Operand_mod_def Operand_pow_def Operand_lshift_def Operand_rshift_def Operand_or_def
  Operand_xor_def Operand_and_def

lemmas right_defs = Operand_radd_def Operand_rsub_def Operand_rmul_def Operand_rtruediv_def
  Operand_rmod_def Operand_rpow_def Operand_ror_def Operand_rxor_def Operand_rand_def

lemma left_method_routes:
  "Operand_binary E bop a v s = Operand_apply E a (operation_name bop) (VOperand a) (Some v) None s"
  by (cases bop) (simp_all add: left_defs)

lemma right_method_routes:
  "Operand_reflected E bop = Some m \<Longrightarrow>
     m b v s = Operand_apply E b (operation_name bop) v (Some (VOperand b)) None s"
  by (cases bop) (auto simp: right_defs)

lemma reflected_None: "Operand_reflected E bop = None \<longleftrightarrow> bop \<in> {LShift, RShift}"
  by (cases bop) simp_all

lemma apply_self_irrelevant:
  "Operand_apply E self opname (VOperand x) (Some (VOperand y)) mode s =
   Operand_apply E self' opname (VOperand x) (Some (VOperand y)) mode s"
proof -
  have "\<And>t z. fixup E self (VOperand z) t = fixup E self' (VOperand z) t"
    by (simp add: fixup_def)
  then show ?thesis unfolding Operand_apply_def
    by (simp cong: sum.case_cong prod.case_cong option.case_cong)
qed

lemma number_on_the_left:
  "is_number v \<Longrightarrow>
     py_binary E bop v (VOperand b) s =
       (case Operand_reflected E bop of
          Some m \<Rightarrow> returned (m b v s)
        | None \<Rightarrow> Some (Inl (TypeError (unsupported_operands bop)), s))"
  by (cases v) (auto simp: py_binary_def split: option.splits)

lemma operand_on_the_left:
  "py_binary E bop (VOperand a) v s = returned (Operand_binary E bop a v s)"
  by (simp add: py_binary_def)

lemma add_commutes_on_apply:
  assumes cI: "\<And>out i j. binop E ''add_I'' out i j = binop E ''add_I'' out j i"
    and cF: "\<And>out i j. binop E ''add_F'' out i j = binop E ''add_F'' out j i"
    and a: "im r < length (heap s)"
    and c: "is_number c"
    and ok: "im_mode (heap s ! im r) \<in> {''1'', ''L'', ''I'', ''F''} \<or> fill_error E ''F'' c = None"
  shows "seen (map_option (\<lambda>(x, t). (map_sum id unwrap x, t))
                 (returned (Operand_apply E r ''add'' (VOperand r) (Some c) None s))) =
         seen (map_option (\<lambda>(x, t). (map_sum id unwrap x, t))
                 (returned (Operand_apply E r ''add'' c (Some (VOperand r)) None s)))"
proof -
  have n: "(case c of VOperand o1 \<Rightarrow> f o1 | _ \<Rightarrow> g) = g"
    for f :: "operand \<Rightarrow> (error + nat) \<times> 'a state" and g
    using c by (cases c) simp_all
  consider (small) "im_mode (heap s ! im r) \<in> {''1'', ''L''}"
    | (I) "im_mode (heap s ! im r) = ''I''"
    | (F) "im_mode (heap s ! im r) = ''F''"
    | (other) "im_mode (heap s ! im r) \<notin> {''1'', ''L'', ''I'', ''F''}"
    by auto
  then show ?thesis
  proof cases
    case small
    then show ?thesis using a c cI
      by (auto simp: seen_def returned_def Operand_apply_def fixup_def n Image_new_def convert_def
          always_converts_def match_modes_def match_sizes_def mode_or_def binop_call_def
          Operand_init_def nth_append split: option.splits)
  next
    case I
    then show ?thesis using a c cI
      by (auto simp: seen_def returned_def Operand_apply_def fixup_def n Image_new_def convert_def
          always_converts_def match_modes_def match_sizes_def mode_or_def binop_call_def
          Operand_init_def nth_append split: option.splits)
  next
    case F
    then show ?thesis using a c cF
      by (auto simp: seen_def returned_def Operand_apply_def fixup_def n Image_new_def convert_def
          always_converts_def match_modes_def match_sizes_def mode_or_def binop_call_def
          Operand_init_def nth_append split: option.splits)
  next
    case other
    then show ?thesis using a c ok
      by (auto simp: seen_def returned_def Operand_apply_def fixup_def n Image_new_def convert_def
          nth_append split: option.splits)
  qed
qed

lemma eval_operator_on_bound_image:
  assumes valid: "check_keys E (map fst dict @ map fst kw) = None"
    and b: "binding dict kw x = Some (RImage a)"
  shows "\<exists>r s1. im r = a \<and> heap s1 = heap s \<and> kernel_log s1 = kernel_log s \<and>
           ImageMath_eval E (Suc (Suc n)) (Some (BinOp (Name x) bop (Constant c))) dict kw s =
             map_option (\<lambda>(y, t). (map_sum id unwrap y, t)) (py_binary E bop (VOperand r) (literal_val c) s1) \<and>
           ImageMath_eval E (Suc (Suc n)) (Some (BinOp (Constant c) bop (Name x))) dict kw s =
             map_option (\<lambda>(y, t). (map_sum id unwrap y, t)) (py_binary E bop (literal_val c) (VOperand r) s1)"
proof -
  obtain args s1 where ba: "build_args dict kw s = (args, s1)" by (cases "build_args dict kw s")
  then have w: "wrap_all (dict_update (dict_update ops dict) kw) s = (args, s1)"
    by (simp add: build_args_def)
  have l: "map_of (dict_update (dict_update ops dict) kw) x = Some (RImage a)"
    using b by (simp add: namespace_lookup)
  from wrap_all_image[OF w l] obtain r where r: "map_of args x = Some (VOperand r)" "im r = a"
    by blast
  have k: "x \<in> fst ` set args" using map_of_keys[OF r(1)] .
  have sc: "scan args (Code [KLit c] [x]) = None" using k by simp
  have f: "(case z of None \<Rightarrow> None | Some (Inl err, s2) \<Rightarrow> Some (Inl err, s2)
            | Some (Inr out, s2) \<Rightarrow> Some (Inr (unwrap out), s2)) =
           map_option (\<lambda>(y, t). (map_sum id unwrap y, t)) z"
    for z :: "((error + val) \<times> 'a state) option"
    by (auto split: option.splits sum.splits prod.splits)
  have e1: "builtins_eval E (Suc (Suc n)) (Some (BinOp (Name x) bop (Constant c))) eval_globals args s1 =
              py_binary E bop (VOperand r) (literal_val c) s1"
    using r by (simp add: builtins_eval_def load_name_def)
  have e2: "builtins_eval E (Suc (Suc n)) (Some (BinOp (Constant c) bop (Name x))) eval_globals args s1 =
              py_binary E bop (literal_val c) (VOperand r) s1"
    using r by (simp add: builtins_eval_def load_name_def)
  have "ImageMath_eval E (Suc (Suc n)) (Some (BinOp (Name x) bop (Constant c))) dict kw s =
          map_option (\<lambda>(y, t). (map_sum id unwrap y, t)) (py_binary E bop (VOperand r) (literal_val c) s1)"
    using valid ba sc e1 by (simp add: ImageMath_eval_def compile_def f)
  moreover have "ImageMath_eval E (Suc (Suc n)) (Some (BinOp (Constant c) bop (Name x))) dict kw s =
          map_option (\<lambda>(y, t). (map_sum id unwrap y, t)) (py_binary E bop (literal_val c) (VOperand r) s1)"
    using valid ba sc e2 by (simp add: ImageMath_eval_def compile_def f)
  ultimately show ?thesis using r(2) build_args_keeps[OF ba] by blast
qed

lemmas run_defs = ImageMath_eval_def build_args_def ops_table compile_def builtins_eval_def
  load_name_def load_global_def insert_builtins_def frame_builtins_def module_builtins_def
  eval_globals_def eval_nat_numeral py_binary_def py_call_def returned_def
  Operand_apply_def fixup_def Image_new_def convert_def always_converts_def demo_fill_error_def
  crop_def match_modes_def match_sizes_def
  mode_or_def binop_call_def unop_call_def Operand_init_def Let_def


lemma errors_follow_operand_order:
  assumes "im_mode (heap s ! im r) \<notin> {''1'', ''L'', ''I'', ''F''}"
    and "is_number c" and "fill_error E ''F'' c = Some e"
  shows "fst (Operand_add E r c s) = Inl (ValueError (unsupported_mode (im_mode (heap s ! im r)))) \<and>
         fst (Operand_radd E r c s) = Inl e"
proof -
  have n: "(case c of VOperand o1 \<Rightarrow> f o1 | _ \<Rightarrow> g) = g"
    for f :: "operand \<Rightarrow> (error + nat) \<times> 'a state" and g
    using assms(2) by (cases c) simp_all
  show ?thesis using assms
    by (simp add: Operand_add_def Operand_radd_def Operand_apply_def fixup_def n Image_new_def)
qed

subsection \<open>C8: right-handed forms\<close>

text \<open>
  Claim C8, as amended. For every binary operator whose reflected method the class defines
  (\<^verbatim>\<open>+ - * / % ** & | ^\<close>): on two operands the reflected method gives what the
  left-handed method gives with the arguments swapped, and \<^verbatim>\<open>number op operand\<close> is
  \<^verbatim>\<open>apply\<close> with the number first and the operand second, as \<^verbatim>\<open>operand op number\<close> is
  \<^verbatim>\<open>apply\<close> with the operand first: the order of the operands is kept. The class defines
  no reflected method for \<^verbatim>\<open><<\<close> and \<^verbatim>\<open>>>\<close>, and only for these: \<^verbatim>\<open>number << operand\<close>
  and \<^verbatim>\<open>number >> operand\<close> raise \<^verbatim>\<open>TypeError\<close>. When the kernels \<^verbatim>\<open>add_I\<close> and
  \<^verbatim>\<open>add_F\<close> are commutative, \<^verbatim>\<open>eval("x + c")\<close> and \<^verbatim>\<open>eval("c + x")\<close> return, for a
  numeric constant \<open>c\<close> and an image \<open>x\<close> in one of the modes 1, L, I, F, the same error or
  images with the same mode, size and buffer; for an image in another mode they do so when
  \<^verbatim>\<open>Image.new\<close> takes \<open>c\<close> as a fill for mode F. (The operands are normalised left to
  right: for an image in another mode and a fill that is refused, \<^verbatim>\<open>x + c\<close> raises the
  unsupported mode and \<^verbatim>\<open>c + x\<close> the refused fill, which is the lemma
  \<open>errors_follow_operand_order\<close>.)
\<close>

theorem right_handed_forms:
  assumes cI: "\<And>out i j. binop E ''add_I'' out i j = binop E ''add_I'' out j i"
    and cF: "\<And>out i j. binop E ''add_F'' out i j = binop E ''add_F'' out j i"
    and keys: "\<forall>k \<in> fst ` set dict \<union> fst ` set kw. \<not> (\<exists>u v. k = u @ ''__'' @ v) \<and> k \<notin> set (builtin_names E)"
    and b: "binding dict kw x = Some (RImage a)"
    and a: "a < length (heap s)"
    and c: "is_number (literal_val c)"
    and ok: "im_mode (heap s ! a) \<in> {''1'', ''L'', ''I'', ''F''} \<or> fill_error E ''F'' (literal_val c) = None"
    and v: "is_number v"
  shows "(\<forall>m. Operand_reflected E bop = Some m \<longrightarrow>
            m q (VOperand p) t = Operand_binary E bop p (VOperand q) t \<and>
            py_binary E bop v (VOperand q) t =
              returned (Operand_apply E q (operation_name bop) v (Some (VOperand q)) None t)) \<and>
         py_binary E bop (VOperand q) v t =
           returned (Operand_apply E q (operation_name bop) (VOperand q) (Some v) None t) \<and>
         (Operand_reflected E bop = None \<longleftrightarrow> bop \<in> {LShift, RShift}) \<and>
         (bop \<in> {LShift, RShift} \<longrightarrow>
            py_binary E bop v (VOperand q) t = Some (Inl (TypeError (unsupported_operands bop)), t)) \<and>
         ImageMath_eval E (Suc (Suc n)) (Some (BinOp (Name x) Add (Constant c))) dict kw s \<noteq> None \<and>
         seen (ImageMath_eval E (Suc (Suc n)) (Some (BinOp (Name x) Add (Constant c))) dict kw s) =
         seen (ImageMath_eval E (Suc (Suc n)) (Some (BinOp (Constant c) Add (Name x))) dict kw s)"
proof -
  have 1: "\<forall>m. Operand_reflected E bop = Some m \<longrightarrow>
            m q (VOperand p) t = Operand_binary E bop p (VOperand q) t \<and>
            py_binary E bop v (VOperand q) t =
              returned (Operand_apply E q (operation_name bop) v (Some (VOperand q)) None t)"
  proof (intro allI impI conjI)
    fix m assume m: "Operand_reflected E bop = Some m"
    show "m q (VOperand p) t = Operand_binary E bop p (VOperand q) t"
      unfolding right_method_routes[OF m] left_method_routes
      by (rule apply_self_irrelevant)
    show "py_binary E bop v (VOperand q) t =
            returned (Operand_apply E q (operation_name bop) v (Some (VOperand q)) None t)"
      using m v by (simp add: number_on_the_left right_method_routes[OF m])
  qed
  have 2: "py_binary E bop (VOperand q) v t =
           returned (Operand_apply E q (operation_name bop) (VOperand q) (Some v) None t)"
    by (simp add: operand_on_the_left left_method_routes)
  have 3: "bop \<in> {LShift, RShift} \<longrightarrow>
            py_binary E bop v (VOperand q) t = Some (Inl (TypeError (unsupported_operands bop)), t)"
    using v by (auto simp: number_on_the_left)
  have valid: "check_keys E (map fst dict @ map fst kw) = None"
    using keys by (auto simp: check_keys_None has_dunder_iff)
  from eval_operator_on_bound_image[OF valid b, of s n Add c]
  obtain r s1 where r: "im r = a" "heap s1 = heap s"
    and l: "ImageMath_eval E (Suc (Suc n)) (Some (BinOp (Name x) Add (Constant c))) dict kw s =
             map_option (\<lambda>(y, t). (map_sum id unwrap y, t)) (py_binary E Add (VOperand r) (literal_val c) s1)"
    and rr: "ImageMath_eval E (Suc (Suc n)) (Some (BinOp (Constant c) Add (Name x))) dict kw s =
             map_option (\<lambda>(y, t). (map_sum id unwrap y, t)) (py_binary E Add (literal_val c) (VOperand r) s1)"
    by blast
  have a': "im r < length (heap s1)" using r a by simp
  have ok': "im_mode (heap s1 ! im r) \<in> {''1'', ''L'', ''I'', ''F''} \<or>
             fill_error E ''F'' (literal_val c) = None"
    using ok r by simp
  have 4: "ImageMath_eval E (Suc (Suc n)) (Some (BinOp (Name x) Add (Constant c))) dict kw s \<noteq> None"
    unfolding l by (simp add: operand_on_the_left returned_def)
  have 5: "seen (ImageMath_eval E (Suc (Suc n)) (Some (BinOp (Name x) Add (Constant c))) dict kw s) =
           seen (ImageMath_eval E (Suc (Suc n)) (Some (BinOp (Constant c) Add (Name x))) dict kw s)"
    unfolding l rr
    using add_commutes_on_apply[OF cI cF a' c ok']
    by (simp add: operand_on_the_left number_on_the_left[OF c] Operand_add_def Operand_radd_def)
  from 1 2 3 reflected_None[of E bop] 4 5 show ?thesis
    by (intro conjI) assumption+
qed

theorem right_handed_forms_witness:
  "binding [(''x'', RImage 0)] [] ''x'' = Some (RImage 0) \<and>
   im_mode (heap demo_state ! 0) = ''L'' \<and>
   Operand_reflected demo_host Sub = Some (Operand_rsub demo_host) \<and>
   Operand_rsub demo_host \<lparr>oid = 0, im = 2\<rparr> (VOperand \<lparr>oid = 1, im = 1\<rparr>) demo_state =
     Operand_binary demo_host Sub \<lparr>oid = 1, im = 1\<rparr> (VOperand \<lparr>oid = 0, im = 2\<rparr>) demo_state \<and>
   seen (ImageMath_eval demo_host 2 (Some (BinOp (Name ''x'') Add (Constant (CInt 2)))) [(''x'', RImage 0)] [] demo_state) =
   seen (ImageMath_eval demo_host 2 (Some (BinOp (Constant (CInt 2)) Add (Name ''x''))) [(''x'', RImage 0)] [] demo_state) \<and>
   seen (ImageMath_eval demo_host 2 (Some (BinOp (Name ''x'') Add (Constant (CInt 2)))) [(''x'', RImage 0)] [] demo_state) =
     Some (Inr (Inl \<lparr>im_mode = ''I'', im_size = (4, 3), im_pixels = 9\<rparr>))"
proof -
  have cI: "\<And>out i j. binop demo_host ''add_I'' out i j = binop demo_host ''add_I'' out j i"
    by (simp add: demo_host_def)
  have cF: "\<And>out i j. binop demo_host ''add_F'' out i j = binop demo_host ''add_F'' out j i"
    by (simp add: demo_host_def)
  have keys: "\<forall>k \<in> fst ` set [(''x'', RImage 0)] \<union> fst ` set ([] :: (string \<times> raw) list).
             \<not> (\<exists>u v. k = u @ ''__'' @ v) \<and> k \<notin> set (builtin_names demo_host)"
    using has_dunder_iff[of "''x''"] by (simp add: demo_host_def)
  have b: "binding [(''x'', RImage 0)] [] ''x'' = Some (RImage 0)" by (simp add: binding_def)
  have a: "0 < length (heap demo_state)" by (simp add: demo_state_def)
  have c: "is_number (literal_val (CInt 2))" and v: "is_number (VInt 2)" by simp_all
  have ok: "im_mode (heap demo_state ! 0) \<in> {''1'', ''L'', ''I'', ''F''} \<or>
            fill_error demo_host ''F'' (literal_val (CInt 2)) = None"
    by (simp add: demo_state_def)
  have r: "Operand_reflected demo_host Sub = Some (Operand_rsub demo_host)" by simp
  have e: "seen (ImageMath_eval demo_host 2 (Some (BinOp (Name ''x'') Add (Constant (CInt 2)))) [(''x'', RImage 0)] [] demo_state) =
     Some (Inr (Inl \<lparr>im_mode = ''I'', im_size = (4, 3), im_pixels = 9\<rparr>))"
    by (simp add: run_defs seen_def demo_host_def demo_state_def demo_kernels_def Operand_add_def)
  note T = right_handed_forms[OF cI cF keys b a c ok v,
      of Sub "\<lparr>oid = 0, im = 2\<rparr>" "\<lparr>oid = 1, im = 1\<rparr>" demo_state 0]
  have 1: "Operand_rsub demo_host \<lparr>oid = 0, im = 2\<rparr> (VOperand \<lparr>oid = 1, im = 1\<rparr>) demo_state =
     Operand_binary demo_host Sub \<lparr>oid = 1, im = 1\<rparr> (VOperand \<lparr>oid = 0, im = 2\<rparr>) demo_state"
    using T r by blast
  have 2: "seen (ImageMath_eval demo_host 2 (Some (BinOp (Name ''x'') Add (Constant (CInt 2)))) [(''x'', RImage 0)] [] demo_state) =
   seen (ImageMath_eval demo_host 2 (Some (BinOp (Constant (CInt 2)) Add (Name ''x''))) [(''x'', RImage 0)] [] demo_state)"
    using T by (simp add: eval_nat_numeral)
  have m: "im_mode (heap demo_state ! 0) = ''L''" by (simp add: demo_state_def)
  show ?thesis using b m r 1 2 e by (intro conjI) assumption+
qed

text \<open>
  The claim as written lists \<^verbatim>\<open>lshift\<close> and \<^verbatim>\<open>rshift\<close> among the operations whose
  right-handed form keeps the operand order. With \<open>x\<close> bound to image 2 of the example
  state, \<^verbatim>\<open>1 << x\<close> raises \<^verbatim>\<open>TypeError\<close>, while \<^verbatim>\<open>x << 1\<close> returns an image.
\<close>

theorem no_right_handed_shift:
  "ImageMath_eval demo_host 2 (Some (BinOp (Constant (CInt 1)) LShift (Name ''x'')))
      [(''x'', RImage 2)] [] demo_state =
     Some (Inl (TypeError ''unsupported operand type(s) for <<''), demo_state\<lparr>next_oid := 2\<rparr>) \<and>
   seen (ImageMath_eval demo_host 2 (Some (BinOp (Name ''x'') LShift (Constant (CInt 1))))
      [(''x'', RImage 2)] [] demo_state) =
     Some (Inr (Inl \<lparr>im_mode = ''I'', im_size = (4, 3), im_pixels = 4\<rparr>))"
  by (simp add: run_defs seen_def demo_host_def demo_state_def demo_kernels_def
      unsupported_operands_def Operand_lshift_def)


subsection \<open>C1: the built-ins of the execution context\<close>

text \<open>
  Claim C1 says the execution context exposes the one built-in \<^verbatim>\<open>abs\<close>. Line 272 passes
  globals whose only key is \<^verbatim>\<open>__builtins\<close>; the interpreter looks for \<^verbatim>\<open>__builtins__\<close>,
  does not find it, and installs all its built-ins. The scan lets \<^verbatim>\<open>int\<close> through (a key of
  \<^verbatim>\<open>ops\<close>), and inside a \<^verbatim>\<open>lambda\<close> the name is looked up in the globals and the
  built-ins, not in the namespace: \<^verbatim>\<open>(lambda: int)()\<close> returns the interpreter's own
  \<^verbatim>\<open>int\<close>.
\<close>

theorem host_builtins_reach_the_expression:
  "frame_builtins (insert_builtins E eval_globals) = module_builtins E \<and>
   ImageMath_eval demo_host 3 (Some (Call (Lambda (Name ''int'')) [])) [] [] demo_state =
     Some (Inr (RetValue (VBuiltin ''int'')), demo_state)"
  by (simp add: run_defs demo_host_def demo_state_def)

end
